theory Spec2Isabelle
  imports Complex_Main "HOL-Library.Multiset" "HOL-Library.Sublist" "HOL-Library.Monad_Syntax"
begin

section \<open>The pricing engine (\<^verbatim>\<open>calculateEstimate\<close>)\<close>

text \<open>
  In this section a JavaScript \<^verbatim>\<open>number\<close> is modelled as a \<^typ>\<open>real\<close> and the
  arithmetic is exact; \<^verbatim>\<open>NaN\<close> and the infinities are outside the model. The rounding of
  IEEE doubles is modelled in the section on the procurement sum in double precision.
  Division in HOL is total (\<open>x / 0 = 0\<close>); no theorem below relies on that value: the
  checked version of the engine further down makes every division by zero a failure.
\<close>

subsection \<open>Data model\<close>

record ProductLine =
  name :: string
  quantity :: real
  unitPrice :: real
  included :: bool
  margin :: real

record CalculationInput =
  products :: "ProductLine list"
  transportCost :: real
  packingCost :: real
  fumigationCost :: real
  customsClearanceCost :: real
  exportDutyRate :: real
  freightCost :: real
  importDuty :: real
  destinationCustomsClearance :: real
  destinationTransport :: real
  distributorMargin :: real
  retailerMargin :: real

record ProductBreakdown =
  name :: string
  quantity :: real
  unitCost :: real
  margin :: real
  invoicePrice :: real
  distributorPrice :: real
  retailerPrice :: real

record CalculationResults =
  rawMaterialsCost :: real
  transportCost :: real
  packingCost :: real
  fumigationCost :: real
  customsClearanceCost :: real
  otherCosts :: real
  totalProcurementCost :: real
  marginAmount :: real
  exportDutyAmount :: real
  invoiceValue :: real
  freightCost :: real
  importDutyCost :: real
  destinationCustomsClearance :: real
  destinationTransport :: real
  otherLogisticsCosts :: real
  totalLogisticsCost :: real
  importerTotalCost :: real
  distributorPrice :: real
  retailerPrice :: real
  totalMarginPercentage :: real
  productBreakdown :: "ProductBreakdown list"

text \<open>
  Field names shared by several records are written qualified, as in
  \<open>CalculationInput.transportCost input\<close> and \<open>CalculationResults.transportCost r\<close>.
\<close>

subsection \<open>The locals of \<^verbatim>\<open>calculateEstimate\<close> that are not result fields\<close>

text \<open>\<^verbatim>\<open>input.products.filter(p => p.included && p.quantity > 0)\<close>\<close>

definition includedProducts :: "CalculationInput \<Rightarrow> ProductLine list" where
  "includedProducts input =
     filter (\<lambda>p. included p \<and> ProductLine.quantity p > 0) (products input)"

text \<open>\<^verbatim>\<open>Array.prototype.reduce\<close> with an initial value is a left fold.\<close>

definition totalProductValue :: "CalculationInput \<Rightarrow> real" where
  "totalProductValue input =
     foldl (\<lambda>sum product. sum + (ProductLine.quantity product * unitPrice product)) 0
       (includedProducts input)"

definition weightedMargin :: "CalculationInput \<Rightarrow> real" where
  "weightedMargin input =
     (if totalProductValue input > 0
      then foldl (\<lambda>sum product.
             let weight = (ProductLine.quantity product * unitPrice product)
                            / totalProductValue input
             in sum + (ProductLine.margin product * weight)) 0
             (includedProducts input)
      else 0)"

subsection \<open>The engine\<close>

definition calculateEstimate :: "CalculationInput \<Rightarrow> CalculationResults" where
  "calculateEstimate input =
    (let rawMaterialsCost =
           foldl (\<lambda>sum product. sum + (ProductLine.quantity product * unitPrice product)) 0
             (includedProducts input);
         otherCosts = CalculationInput.fumigationCost input
                        + CalculationInput.customsClearanceCost input;
         totalProcurementCost =
           rawMaterialsCost + CalculationInput.transportCost input
             + CalculationInput.packingCost input + otherCosts;
         marginAmount = totalProcurementCost * (weightedMargin input / 100);
         invoiceValueBeforeDuty = totalProcurementCost + marginAmount;
         exportDutyAmount = invoiceValueBeforeDuty * (exportDutyRate input / 100);
         invoiceValue = invoiceValueBeforeDuty + exportDutyAmount;
         otherLogisticsCosts = CalculationInput.destinationCustomsClearance input
                                 + CalculationInput.destinationTransport input;
         totalLogisticsCost =
           CalculationInput.freightCost input + importDuty input + otherLogisticsCosts;
         importerTotalCost = invoiceValue + totalLogisticsCost;
         distributorPrice = importerTotalCost * (1 + distributorMargin input / 100);
         retailerPrice = distributorPrice * (1 + retailerMargin input / 100);
         totalMarginPercentage =
           (if totalProcurementCost > 0
            then ((retailerPrice - totalProcurementCost) / totalProcurementCost) * 100
            else 0);
         productBreakdown =
           map (\<lambda>product.
                 let productTotal = ProductLine.quantity product * unitPrice product;
                     productShare = (if totalProductValue input > 0
                                     then productTotal / totalProductValue input else 0);
                     allocatedInvoiceValue = invoiceValue * productShare;
                     allocatedDistributorPrice = distributorPrice * productShare;
                     allocatedRetailerPrice = retailerPrice * productShare
                 in \<lparr> ProductBreakdown.name = ProductLine.name product,
                      ProductBreakdown.quantity = ProductLine.quantity product,
                      unitCost = unitPrice product,
                      ProductBreakdown.margin = ProductLine.margin product,
                      invoicePrice = allocatedInvoiceValue / ProductLine.quantity product,
                      ProductBreakdown.distributorPrice =
                        allocatedDistributorPrice / ProductLine.quantity product,
                      ProductBreakdown.retailerPrice =
                        allocatedRetailerPrice / ProductLine.quantity product \<rparr>)
               (includedProducts input)
     in \<lparr> rawMaterialsCost = rawMaterialsCost,
          CalculationResults.transportCost = CalculationInput.transportCost input,
          CalculationResults.packingCost = CalculationInput.packingCost input,
          CalculationResults.fumigationCost = CalculationInput.fumigationCost input,
          CalculationResults.customsClearanceCost = CalculationInput.customsClearanceCost input,
          otherCosts = otherCosts,
          totalProcurementCost = totalProcurementCost,
          marginAmount = marginAmount,
          exportDutyAmount = exportDutyAmount,
          invoiceValue = invoiceValue,
          CalculationResults.freightCost = CalculationInput.freightCost input,
          importDutyCost = importDuty input,
          CalculationResults.destinationCustomsClearance =
            CalculationInput.destinationCustomsClearance input,
          CalculationResults.destinationTransport = CalculationInput.destinationTransport input,
          otherLogisticsCosts = otherLogisticsCosts,
          totalLogisticsCost = totalLogisticsCost,
          importerTotalCost = importerTotalCost,
          CalculationResults.distributorPrice = distributorPrice,
          CalculationResults.retailerPrice = retailerPrice,
          totalMarginPercentage = totalMarginPercentage,
          productBreakdown = productBreakdown \<rparr>)"

text \<open>
  The unused locals \<^verbatim>\<open>allocatedProcurementCost\<close> and \<^verbatim>\<open>allocatedImporterCost\<close> of the
  source are left out: no result field reads them.
\<close>

subsection \<open>The stages of the computation, field by field\<close>

lemma foldl_add_sum_list:
  "foldl (\<lambda>sum x. sum + f x) a xs = (a::real) + sum_list (map f xs)"
  by (induction xs arbitrary: a) (simp_all add: add.assoc)

lemma rawMaterialsCost_calc:
  "rawMaterialsCost (calculateEstimate input) = totalProductValue input"
  by (simp add: calculateEstimate_def totalProductValue_def Let_def)

lemma otherCosts_calc:
  "otherCosts (calculateEstimate input) =
     CalculationInput.fumigationCost input + CalculationInput.customsClearanceCost input"
  by (simp add: calculateEstimate_def Let_def)

lemma totalProcurementCost_calc:
  "totalProcurementCost (calculateEstimate input) =
     rawMaterialsCost (calculateEstimate input) + CalculationInput.transportCost input
       + CalculationInput.packingCost input + otherCosts (calculateEstimate input)"
  by (simp add: calculateEstimate_def Let_def)

lemma marginAmount_calc:
  "marginAmount (calculateEstimate input) =
     totalProcurementCost (calculateEstimate input) * (weightedMargin input / 100)"
  by (simp add: calculateEstimate_def Let_def)

lemma exportDutyAmount_calc:
  "exportDutyAmount (calculateEstimate input) =
     (totalProcurementCost (calculateEstimate input) + marginAmount (calculateEstimate input))
       * (exportDutyRate input / 100)"
  by (simp add: calculateEstimate_def Let_def)

lemma invoiceValue_calc:
  "invoiceValue (calculateEstimate input) =
     (totalProcurementCost (calculateEstimate input) + marginAmount (calculateEstimate input))
       + exportDutyAmount (calculateEstimate input)"
  by (simp add: calculateEstimate_def Let_def)

lemma echo_calc:
  "CalculationResults.transportCost (calculateEstimate input)
     = CalculationInput.transportCost input"
  "CalculationResults.packingCost (calculateEstimate input)
     = CalculationInput.packingCost input"
  "CalculationResults.fumigationCost (calculateEstimate input)
     = CalculationInput.fumigationCost input"
  "CalculationResults.customsClearanceCost (calculateEstimate input)
     = CalculationInput.customsClearanceCost input"
  "CalculationResults.freightCost (calculateEstimate input)
     = CalculationInput.freightCost input"
  "importDutyCost (calculateEstimate input) = importDuty input"
  "CalculationResults.destinationCustomsClearance (calculateEstimate input)
     = CalculationInput.destinationCustomsClearance input"
  "CalculationResults.destinationTransport (calculateEstimate input)
     = CalculationInput.destinationTransport input"
  by (simp_all add: calculateEstimate_def Let_def)

subsection \<open>Closed form of the invoice value\<close>

text \<open>
  Claim C2. For every input, the invoice value of the result is
  \<open>totalProcurementCost * (1 + weightedMargin / 100) * (1 + exportDutyRate / 100)\<close>:
  the staged computation (margin amount, pre-duty invoice value, export duty amount,
  invoice value) collapses to this one expression.
\<close>

theorem invoiceValue_closed_form:
  "invoiceValue (calculateEstimate input) =
     totalProcurementCost (calculateEstimate input)
       * (1 + weightedMargin input / 100) * (1 + exportDutyRate input / 100)"
  unfolding invoiceValue_calc exportDutyAmount_calc marginAmount_calc
  by (simp add: algebra_simps)

subsection \<open>Total procurement cost, over exact arithmetic\<close>

text \<open>
  Over the reals the grouping of the additions does not matter: the total procurement
  cost is the sum of the five costs, which the code adds as
  \<open>rawMaterialsCost + transportCost + packingCost + (fumigationCost + customsClearanceCost)\<close>.
  The code's doubles are the subject of the section on the procurement sum in double
  precision.
\<close>

lemma totalProcurementCost_exact_arithmetic:
  "totalProcurementCost (calculateEstimate input) =
     rawMaterialsCost (calculateEstimate input)
       + CalculationResults.transportCost (calculateEstimate input)
       + CalculationResults.packingCost (calculateEstimate input)
       + CalculationResults.fumigationCost (calculateEstimate input)
       + CalculationResults.customsClearanceCost (calculateEstimate input)"
  unfolding totalProcurementCost_calc otherCosts_calc echo_calc
  by simp

subsection \<open>Scenario A: a single product line\<close>

definition scenarioA :: "string \<Rightarrow> CalculationInput" where
  "scenarioA nm =
     \<lparr> products = [\<lparr> ProductLine.name = nm, ProductLine.quantity = 10, unitPrice = 100,
                      included = True, ProductLine.margin = 15 \<rparr>],
       CalculationInput.transportCost = 0, CalculationInput.packingCost = 0,
       CalculationInput.fumigationCost = 0, CalculationInput.customsClearanceCost = 0,
       exportDutyRate = 0, CalculationInput.freightCost = 0, importDuty = 0,
       CalculationInput.destinationCustomsClearance = 0,
       CalculationInput.destinationTransport = 0,
       distributorMargin = 0, retailerMargin = 0 \<rparr>"

lemma scenarioA_included: "includedProducts (scenarioA nm) = products (scenarioA nm)"
  by (simp add: includedProducts_def scenarioA_def)

lemma scenarioA_value: "totalProductValue (scenarioA nm) = 1000"
  by (simp add: totalProductValue_def scenarioA_included) (simp add: scenarioA_def)

lemma scenarioA_margin: "weightedMargin (scenarioA nm) = 15"
  by (simp add: weightedMargin_def scenarioA_included scenarioA_value)
     (simp add: scenarioA_def)

lemma scenarioA_result:
  "calculateEstimate (scenarioA nm) =
     \<lparr> rawMaterialsCost = 1000, CalculationResults.transportCost = 0,
       CalculationResults.packingCost = 0, CalculationResults.fumigationCost = 0,
       CalculationResults.customsClearanceCost = 0, otherCosts = 0,
       totalProcurementCost = 1000, marginAmount = 150, exportDutyAmount = 0,
       invoiceValue = 1150, CalculationResults.freightCost = 0, importDutyCost = 0,
       CalculationResults.destinationCustomsClearance = 0,
       CalculationResults.destinationTransport = 0, otherLogisticsCosts = 0,
       totalLogisticsCost = 0, importerTotalCost = 1150,
       CalculationResults.distributorPrice = 1150, CalculationResults.retailerPrice = 1150,
       totalMarginPercentage = 15,
       productBreakdown =
         [\<lparr> ProductBreakdown.name = nm, ProductBreakdown.quantity = 10, unitCost = 100,
            ProductBreakdown.margin = 15, invoicePrice = 115,
            ProductBreakdown.distributorPrice = 115,
            ProductBreakdown.retailerPrice = 115 \<rparr>] \<rparr>"
  by (simp add: calculateEstimate_def scenarioA_included scenarioA_value scenarioA_margin
        Let_def)
     (simp add: scenarioA_def)

text \<open>
  Claim C3. For the input with exactly one product line (quantity 10, unit price 100,
  margin 15, included) and every other cost and rate 0, the engine returns raw
  materials cost 1000, total procurement cost 1000, margin amount 150, invoice value
  1150, importer total cost 1150, distributor price 1150, retailer price 1150, and a
  breakdown of one entry whose per-unit invoice price is 115. The weighted margin is 15.
\<close>

theorem scenarioA_values:
  "rawMaterialsCost (calculateEstimate (scenarioA nm)) = 1000
   \<and> totalProcurementCost (calculateEstimate (scenarioA nm)) = 1000
   \<and> weightedMargin (scenarioA nm) = 15
   \<and> marginAmount (calculateEstimate (scenarioA nm)) = 150
   \<and> invoiceValue (calculateEstimate (scenarioA nm)) = 1150
   \<and> importerTotalCost (calculateEstimate (scenarioA nm)) = 1150
   \<and> CalculationResults.distributorPrice (calculateEstimate (scenarioA nm)) = 1150
   \<and> CalculationResults.retailerPrice (calculateEstimate (scenarioA nm)) = 1150
   \<and> length (productBreakdown (calculateEstimate (scenarioA nm))) = 1
   \<and> invoicePrice (productBreakdown (calculateEstimate (scenarioA nm)) ! 0) = 115"
  unfolding scenarioA_result
  by (simp add: scenarioA_margin)

subsection \<open>The weighted average margin\<close>

text \<open>
  The spec's wording of the weighted margin: the weight of a filtered line is its
  \<open>quantity * unitPrice\<close> divided by the sum of \<open>quantity * unitPrice\<close> over all
  filtered lines, and the weighted margin is the sum of \<open>margin * weight\<close>.
\<close>

definition weightedMargin_spec :: "CalculationInput \<Rightarrow> real" where
  "weightedMargin_spec input =
     (let lines = includedProducts input;
          totalValue =
            sum_list (map (\<lambda>line. ProductLine.quantity line * unitPrice line) lines)
      in sum_list (map (\<lambda>line. ProductLine.margin line
                 * ((ProductLine.quantity line * unitPrice line) / totalValue)) lines))"

text \<open>Scenario B: two included lines worth 1000 each, with margins \<open>m1\<close> and \<open>m2\<close>.\<close>

definition twoProducts :: "string \<Rightarrow> string \<Rightarrow> real \<Rightarrow> real \<Rightarrow> ProductLine list" where
  "twoProducts n1 n2 m1 m2 =
     [\<lparr> ProductLine.name = n1, ProductLine.quantity = 10, unitPrice = 100,
        included = True, ProductLine.margin = m1 \<rparr>,
      \<lparr> ProductLine.name = n2, ProductLine.quantity = 20, unitPrice = 50,
        included = True, ProductLine.margin = m2 \<rparr>]"

lemma totalProductValue_sum_list:
  "totalProductValue input =
     sum_list (map (\<lambda>line. ProductLine.quantity line * unitPrice line)
       (includedProducts input))"
  by (simp add: totalProductValue_def foldl_add_sum_list)

lemma weightedMargin_sum_list:
  "0 < totalProductValue input \<Longrightarrow>
   weightedMargin input =
     sum_list (map (\<lambda>line. ProductLine.margin line
         * ((ProductLine.quantity line * unitPrice line) / totalProductValue input))
       (includedProducts input))"
  by (simp add: weightedMargin_def Let_def foldl_add_sum_list)

lemma includedProducts_update:
  "includedProducts (input\<lparr>products := ps\<rparr>) =
     filter (\<lambda>p. included p \<and> ProductLine.quantity p > 0) ps"
  by (simp add: includedProducts_def)

lemma twoProducts_included:
  "includedProducts (input\<lparr>products := twoProducts n1 n2 m1 m2\<rparr>) = twoProducts n1 n2 m1 m2"
  by (simp add: includedProducts_update twoProducts_def)

lemma twoProducts_value:
  "totalProductValue (input\<lparr>products := twoProducts n1 n2 m1 m2\<rparr>) = 2000"
  by (simp add: totalProductValue_def twoProducts_included) (simp add: twoProducts_def)

lemma twoProducts_margin:
  "weightedMargin (input\<lparr>products := twoProducts n1 n2 m1 m2\<rparr>) = (m1 + m2) / 2"
  by (simp add: weightedMargin_def twoProducts_included twoProducts_value Let_def)
     (simp add: twoProducts_def)

text \<open>
  Claim C4. When the total product value is positive, the weighted margin the engine
  uses is the value-share-weighted average of the filtered lines' margins, each line
  weighted by \<open>quantity * unitPrice\<close> over the total product value. For the two included
  lines 10 at 100 and 20 at 50 (equal value shares) the weighted margin is 15, whichever
  of the two carries the margin 10 and whichever the margin 20.
\<close>

theorem weightedMargin_value_share_average:
  "(0 < totalProductValue input \<longrightarrow> weightedMargin input = weightedMargin_spec input)
   \<and> weightedMargin (input\<lparr>products := twoProducts n1 n2 10 20\<rparr>) = 15
   \<and> weightedMargin (input\<lparr>products := twoProducts n1 n2 20 10\<rparr>) = 15"
  by (simp add: twoProducts_margin weightedMargin_sum_list weightedMargin_spec_def Let_def
        totalProductValue_sum_list [symmetric])

theorem weightedMargin_value_share_average_witness:
  "0 < totalProductValue ((scenarioA ''A'')\<lparr>products := twoProducts ''A'' ''B'' 10 20\<rparr>)
   \<and> weightedMargin_spec ((scenarioA ''A'')\<lparr>products := twoProducts ''A'' ''B'' 10 20\<rparr>) = 15"
  using weightedMargin_value_share_average
          [of "(scenarioA ''A'')\<lparr>products := twoProducts ''A'' ''B'' 10 20\<rparr>" "''A''" "''B''"]
  by (simp add: twoProducts_value)

subsection \<open>No included product\<close>

definition allExcludedInput :: CalculationInput where
  "allExcludedInput =
     \<lparr> products = [\<lparr> ProductLine.name = ''P'', ProductLine.quantity = 5, unitPrice = 100,
                      included = False, ProductLine.margin = 15 \<rparr>,
                   \<lparr> ProductLine.name = ''Q'', ProductLine.quantity = 0, unitPrice = 40,
                      included = True, ProductLine.margin = 10 \<rparr>],
       CalculationInput.transportCost = 1, CalculationInput.packingCost = 2,
       CalculationInput.fumigationCost = 3, CalculationInput.customsClearanceCost = 4,
       exportDutyRate = 5, CalculationInput.freightCost = 6, importDuty = 7,
       CalculationInput.destinationCustomsClearance = 8,
       CalculationInput.destinationTransport = 9,
       distributorMargin = 12, retailerMargin = 20 \<rparr>"

lemma none_included:
  "\<forall>p\<in>set (products input). \<not> included p \<or> ProductLine.quantity p \<le> 0
     \<Longrightarrow> includedProducts input = []"
  by (auto simp add: includedProducts_def filter_empty_conv)

text \<open>
  Claim C5. For every input whose product list is empty, or in which every line is not
  included or has a quantity at most 0, the engine returns raw materials cost 0; the
  total product value is 0, so the weighted margin is the guard's 0 (its division is not
  taken) and the margin amount is 0; the product breakdown is empty; and the result
  fields that echo the origin and destination costs equal the input's values.
\<close>

theorem no_included_products_result:
  assumes "\<forall>p\<in>set (products input). \<not> included p \<or> ProductLine.quantity p \<le> 0"
  shows "rawMaterialsCost (calculateEstimate input) = 0
   \<and> totalProductValue input = 0
   \<and> weightedMargin input = 0
   \<and> marginAmount (calculateEstimate input) = 0
   \<and> productBreakdown (calculateEstimate input) = []
   \<and> CalculationResults.transportCost (calculateEstimate input)
       = CalculationInput.transportCost input
   \<and> CalculationResults.packingCost (calculateEstimate input)
       = CalculationInput.packingCost input
   \<and> CalculationResults.fumigationCost (calculateEstimate input)
       = CalculationInput.fumigationCost input
   \<and> CalculationResults.customsClearanceCost (calculateEstimate input)
       = CalculationInput.customsClearanceCost input
   \<and> CalculationResults.freightCost (calculateEstimate input)
       = CalculationInput.freightCost input
   \<and> importDutyCost (calculateEstimate input) = importDuty input
   \<and> CalculationResults.destinationCustomsClearance (calculateEstimate input)
       = CalculationInput.destinationCustomsClearance input
   \<and> CalculationResults.destinationTransport (calculateEstimate input)
       = CalculationInput.destinationTransport input"
proof -
  have incl: "includedProducts input = []"
    using assms by (rule none_included)
  have tot: "totalProductValue input = 0"
    by (simp add: totalProductValue_def incl)
  have wm: "weightedMargin input = 0"
    by (simp add: weightedMargin_def tot)
  have pb: "productBreakdown (calculateEstimate input) = []"
    by (simp add: calculateEstimate_def Let_def incl)
  show ?thesis
    by (simp add: rawMaterialsCost_calc marginAmount_calc echo_calc tot wm pb)
qed

theorem no_included_products_result_witness:
  "list_all (\<lambda>p. \<not> included p \<or> ProductLine.quantity p \<le> 0) (products allExcludedInput)
   \<and> rawMaterialsCost (calculateEstimate allExcludedInput) = 0
   \<and> marginAmount (calculateEstimate allExcludedInput) = 0
   \<and> productBreakdown (calculateEstimate allExcludedInput) = []
   \<and> CalculationResults.transportCost (calculateEstimate allExcludedInput) = 1
   \<and> CalculationResults.destinationTransport (calculateEstimate allExcludedInput) = 9"
proof -
  have h: "\<forall>p\<in>set (products allExcludedInput).
             \<not> included p \<or> ProductLine.quantity p \<le> 0"
    by (simp add: allExcludedInput_def)
  have "CalculationInput.transportCost allExcludedInput = 1"
    and "CalculationInput.destinationTransport allExcludedInput = 9"
    by (simp_all add: allExcludedInput_def)
  with h no_included_products_result [OF h] show ?thesis
    by (simp add: list_all_iff)
qed

subsection \<open>Excluded lines are invisible\<close>

definition excludedLine :: ProductLine where
  "excludedLine = \<lparr> ProductLine.name = ''X'', ProductLine.quantity = 3, unitPrice = 70,
                    included = False, ProductLine.margin = 50 \<rparr>"

lemma products_update_select:
  "CalculationInput.transportCost (input\<lparr>products := ps\<rparr>)
     = CalculationInput.transportCost input"
  "CalculationInput.packingCost (input\<lparr>products := ps\<rparr>)
     = CalculationInput.packingCost input"
  "CalculationInput.fumigationCost (input\<lparr>products := ps\<rparr>)
     = CalculationInput.fumigationCost input"
  "CalculationInput.customsClearanceCost (input\<lparr>products := ps\<rparr>)
     = CalculationInput.customsClearanceCost input"
  "exportDutyRate (input\<lparr>products := ps\<rparr>) = exportDutyRate input"
  "CalculationInput.freightCost (input\<lparr>products := ps\<rparr>)
     = CalculationInput.freightCost input"
  "importDuty (input\<lparr>products := ps\<rparr>) = importDuty input"
  "CalculationInput.destinationCustomsClearance (input\<lparr>products := ps\<rparr>)
     = CalculationInput.destinationCustomsClearance input"
  "CalculationInput.destinationTransport (input\<lparr>products := ps\<rparr>)
     = CalculationInput.destinationTransport input"
  "distributorMargin (input\<lparr>products := ps\<rparr>) = distributorMargin input"
  "retailerMargin (input\<lparr>products := ps\<rparr>) = retailerMargin input"
  by simp_all

text \<open>The engine reads the product list only through the filter.\<close>

lemma calculateEstimate_products_cong:
  assumes "includedProducts (input\<lparr>products := ps\<rparr>)
             = includedProducts (input\<lparr>products := qs\<rparr>)"
  shows "calculateEstimate (input\<lparr>products := ps\<rparr>)
           = calculateEstimate (input\<lparr>products := qs\<rparr>)"
proof -
  have t: "totalProductValue (input\<lparr>products := ps\<rparr>)
             = totalProductValue (input\<lparr>products := qs\<rparr>)"
    by (simp add: totalProductValue_def assms)
  have w: "weightedMargin (input\<lparr>products := ps\<rparr>)
             = weightedMargin (input\<lparr>products := qs\<rparr>)"
    by (simp add: weightedMargin_def assms t)
  show ?thesis
    unfolding calculateEstimate_def assms t w products_update_select by (rule refl)
qed

text \<open>
  Claim C6. For every input and every product line \<open>L\<close> that is not included or has a
  quantity at most 0, appending \<open>L\<close> to the input's products leaves the whole result
  unchanged, and so does inserting \<open>L\<close> at, or removing it from, any position of the
  product list.
\<close>

theorem excluded_line_invisible:
  assumes "\<not> included L \<or> ProductLine.quantity L \<le> 0"
  shows "calculateEstimate (input\<lparr>products := products input @ [L]\<rparr>)
           = calculateEstimate input
     \<and> calculateEstimate (input\<lparr>products := xs @ L # ys\<rparr>)
           = calculateEstimate (input\<lparr>products := xs @ ys\<rparr>)"
proof -
  have f: "includedProducts (input\<lparr>products := xs @ L # ys\<rparr>)
             = includedProducts (input\<lparr>products := xs @ ys\<rparr>)" for xs ys
    using assms by (auto simp add: includedProducts_update)
  have g: "calculateEstimate (input\<lparr>products := xs @ L # ys\<rparr>)
             = calculateEstimate (input\<lparr>products := xs @ ys\<rparr>)" for xs ys
    by (rule calculateEstimate_products_cong) (rule f)
  from g [of "products input" "[]"] g [of xs ys] show ?thesis
    by simp
qed

theorem excluded_line_invisible_witness:
  "\<not> included excludedLine
   \<and> calculateEstimate
         ((scenarioA ''P'')\<lparr>products := products (scenarioA ''P'') @ [excludedLine]\<rparr>)
       = calculateEstimate (scenarioA ''P'')
   \<and> invoiceValue (calculateEstimate
         ((scenarioA ''P'')\<lparr>products := products (scenarioA ''P'') @ [excludedLine]\<rparr>))
       = 1150"
proof -
  have h: "\<not> included excludedLine \<or> ProductLine.quantity excludedLine \<le> 0"
    by (simp add: excludedLine_def)
  have "\<not> included excludedLine"
    by (simp add: excludedLine_def)
  then show ?thesis
    using excluded_line_invisible [OF h, of "scenarioA ''P''" "[]" "[]"]
    by (simp add: scenarioA_result)
qed

subsection \<open>Allocation round trip\<close>

text \<open>
  The round-trip sum: over the filtered lines, the per-unit price of the \<open>i\<close>-th breakdown
  entry times the quantity of the \<open>i\<close>-th filtered line.
\<close>

definition roundTripSum :: "(ProductBreakdown \<Rightarrow> real) \<Rightarrow> CalculationInput \<Rightarrow> real" where
  "roundTripSum price input =
     sum_list (map (\<lambda>(b, line). price b * ProductLine.quantity line)
       (zip (productBreakdown (calculateEstimate input)) (includedProducts input)))"

text \<open>Equality within a relative tolerance of \<open>10\<^sup>-\<^sup>6\<close>.\<close>

definition withinTolerance :: "real \<Rightarrow> real \<Rightarrow> bool" where
  "withinTolerance a b = (\<bar>a - b\<bar> \<le> (1 / 1000000) * max \<bar>a\<bar> \<bar>b\<bar>)"

text \<open>The local \<^verbatim>\<open>productShare\<close> of the breakdown's \<^verbatim>\<open>map\<close> callback.\<close>

definition productShare :: "CalculationInput \<Rightarrow> ProductLine \<Rightarrow> real" where
  "productShare input product =
     (if totalProductValue input > 0
      then (ProductLine.quantity product * unitPrice product) / totalProductValue input
      else 0)"

text \<open>One included line of unit price 0, and a transport cost of 100.\<close>

definition zeroPriceInput :: CalculationInput where
  "zeroPriceInput =
     \<lparr> products = [\<lparr> ProductLine.name = ''P'', ProductLine.quantity = 1, unitPrice = 0,
                      included = True, ProductLine.margin = 15 \<rparr>],
       CalculationInput.transportCost = 100, CalculationInput.packingCost = 0,
       CalculationInput.fumigationCost = 0, CalculationInput.customsClearanceCost = 0,
       exportDutyRate = 0, CalculationInput.freightCost = 0, importDuty = 0,
       CalculationInput.destinationCustomsClearance = 0,
       CalculationInput.destinationTransport = 0,
       distributorMargin = 0, retailerMargin = 0 \<rparr>"

lemma productBreakdown_calc:
  "productBreakdown (calculateEstimate input) =
     map (\<lambda>product.
        \<lparr> ProductBreakdown.name = ProductLine.name product,
          ProductBreakdown.quantity = ProductLine.quantity product,
          unitCost = unitPrice product,
          ProductBreakdown.margin = ProductLine.margin product,
          invoicePrice = invoiceValue (calculateEstimate input) * productShare input product
                           / ProductLine.quantity product,
          ProductBreakdown.distributorPrice =
            CalculationResults.distributorPrice (calculateEstimate input)
              * productShare input product / ProductLine.quantity product,
          ProductBreakdown.retailerPrice =
            CalculationResults.retailerPrice (calculateEstimate input)
              * productShare input product / ProductLine.quantity product \<rparr>)
       (includedProducts input)"
  by (simp add: calculateEstimate_def Let_def productShare_def)

lemma included_quantity_pos:
  "line \<in> set (includedProducts input) \<Longrightarrow> 0 < ProductLine.quantity line"
  by (simp add: includedProducts_def)

lemma share_term:
  assumes "0 < totalProductValue input" and "line \<in> set (includedProducts input)"
  shows "V * productShare input line / ProductLine.quantity line * ProductLine.quantity line
           = (V / totalProductValue input) * (ProductLine.quantity line * unitPrice line)"
proof -
  have "ProductLine.quantity line \<noteq> 0"
    using assms(2) included_quantity_pos by fastforce
  then show ?thesis
    using assms(1) by (simp add: productShare_def)
qed

lemma share_sum:
  assumes "0 < totalProductValue input"
  shows "sum_list (map (\<lambda>line. V * productShare input line / ProductLine.quantity line
            * ProductLine.quantity line) (includedProducts input)) = V"
proof -
  let ?T = "totalProductValue input"
  have "map (\<lambda>line. V * productShare input line / ProductLine.quantity line
            * ProductLine.quantity line) (includedProducts input)
      = map (\<lambda>line. (V / ?T) * (ProductLine.quantity line * unitPrice line))
          (includedProducts input)"
    by (rule map_cong [OF refl]) (rule share_term [OF assms])
  then have "sum_list (map (\<lambda>line. V * productShare input line / ProductLine.quantity line
            * ProductLine.quantity line) (includedProducts input)) = (V / ?T) * ?T"
    by (simp only: sum_list_const_mult totalProductValue_sum_list)
  with assms show ?thesis by simp
qed

lemma roundTripSum_calc:
  "roundTripSum invoicePrice input =
     sum_list (map (\<lambda>line. invoiceValue (calculateEstimate input) * productShare input line
        / ProductLine.quantity line * ProductLine.quantity line) (includedProducts input))"
  "roundTripSum ProductBreakdown.distributorPrice input =
     sum_list (map (\<lambda>line. CalculationResults.distributorPrice (calculateEstimate input)
        * productShare input line
        / ProductLine.quantity line * ProductLine.quantity line) (includedProducts input))"
  "roundTripSum ProductBreakdown.retailerPrice input =
     sum_list (map (\<lambda>line. CalculationResults.retailerPrice (calculateEstimate input)
        * productShare input line
        / ProductLine.quantity line * ProductLine.quantity line) (includedProducts input))"
  unfolding roundTripSum_def productBreakdown_calc
  by (simp_all add: zip_map1 zip_same_conv_map comp_def)

lemma zeroPriceInput_included: "includedProducts zeroPriceInput = products zeroPriceInput"
  by (simp add: includedProducts_def zeroPriceInput_def)

lemma zeroPriceInput_value: "totalProductValue zeroPriceInput = 0"
  by (simp add: totalProductValue_def zeroPriceInput_included) (simp add: zeroPriceInput_def)

lemma zeroPriceInput_margin: "weightedMargin zeroPriceInput = 0"
  by (simp add: weightedMargin_def zeroPriceInput_value)

lemma zeroPriceInput_invoiceValue: "invoiceValue (calculateEstimate zeroPriceInput) = 100"
  by (simp add: invoiceValue_calc exportDutyAmount_calc marginAmount_calc
        totalProcurementCost_calc rawMaterialsCost_calc otherCosts_calc
        zeroPriceInput_value zeroPriceInput_margin)
     (simp add: zeroPriceInput_def)

lemma zeroPriceInput_roundTrip: "roundTripSum invoicePrice zeroPriceInput = 0"
  by (simp add: roundTripSum_calc productShare_def zeroPriceInput_value)

text \<open>
  Claim C1, as stated, fails: the input \<open>zeroPriceInput\<close> has a filtered line, its invoice
  value is 100 (the transport cost), and its round-trip sum is 0, since the total product
  value is 0 and every share is the guard's 0.
\<close>

theorem allocation_round_trip_counterexample:
  "includedProducts zeroPriceInput \<noteq> []
   \<and> invoiceValue (calculateEstimate zeroPriceInput) = 100
   \<and> roundTripSum invoicePrice zeroPriceInput = 0
   \<and> \<not> withinTolerance (roundTripSum invoicePrice zeroPriceInput)
        (invoiceValue (calculateEstimate zeroPriceInput))"
  by (simp add: zeroPriceInput_included zeroPriceInput_invoiceValue zeroPriceInput_roundTrip
        withinTolerance_def)
     (simp add: zeroPriceInput_def)

text \<open>
  Claim C1, amended. For every input whose total product value (the sum of
  \<open>quantity * unitPrice\<close> over the filtered lines) is positive, the sum over the filtered
  lines of the breakdown's per-unit invoice price times the line's quantity equals the
  blended invoice value, and likewise for the distributor price and the retailer price.
  Over the reals the equality is exact.
\<close>

theorem allocation_round_trip:
  assumes "0 < totalProductValue input"
  shows "roundTripSum invoicePrice input = invoiceValue (calculateEstimate input)
    \<and> roundTripSum ProductBreakdown.distributorPrice input
        = CalculationResults.distributorPrice (calculateEstimate input)
    \<and> roundTripSum ProductBreakdown.retailerPrice input
        = CalculationResults.retailerPrice (calculateEstimate input)"
  unfolding roundTripSum_calc by (intro conjI share_sum [OF assms])

theorem allocation_round_trip_witness:
  "0 < totalProductValue (scenarioA ''P'')
   \<and> roundTripSum invoicePrice (scenarioA ''P'') = 1150
   \<and> roundTripSum ProductBreakdown.distributorPrice (scenarioA ''P'') = 1150
   \<and> roundTripSum ProductBreakdown.retailerPrice (scenarioA ''P'') = 1150"
proof -
  have h: "0 < totalProductValue (scenarioA ''P'')"
    by (simp add: scenarioA_value)
  from h allocation_round_trip [OF h] show ?thesis
    by (simp add: scenarioA_result)
qed

subsection \<open>The engine with every division checked\<close>

text \<open>
  A JavaScript division never throws; to state that every division of the engine has a
  divisor other than 0, the engine is written a second time with each \<^verbatim>\<open>/\<close> of the source
  replaced by \<open>checked_div\<close>, which fails on a zero divisor. Nothing else of the engine
  can fail: it reads fields of its typed argument and calls \<^verbatim>\<open>filter\<close>, \<^verbatim>\<open>reduce\<close> and
  \<^verbatim>\<open>map\<close> with callbacks that only do arithmetic.
\<close>

definition checked_div :: "real \<Rightarrow> real \<Rightarrow> real option" where
  "checked_div a b = (if b = 0 then None else Some (a / b))"

fun reduce_checked :: "('b \<Rightarrow> 'a \<Rightarrow> 'b option) \<Rightarrow> 'b \<Rightarrow> 'a list \<Rightarrow> 'b option" where
  "reduce_checked f acc [] = Some acc"
| "reduce_checked f acc (x # xs) =
     (case f acc x of None \<Rightarrow> None | Some acc' \<Rightarrow> reduce_checked f acc' xs)"

fun map_checked :: "('a \<Rightarrow> 'b option) \<Rightarrow> 'a list \<Rightarrow> 'b list option" where
  "map_checked f [] = Some []"
| "map_checked f (x # xs) =
     (case f x of None \<Rightarrow> None
      | Some y \<Rightarrow> (case map_checked f xs of None \<Rightarrow> None | Some ys \<Rightarrow> Some (y # ys)))"

definition weightedMargin_checked :: "CalculationInput \<Rightarrow> real option" where
  "weightedMargin_checked input =
     (if totalProductValue input > 0
      then reduce_checked (\<lambda>sum product. do {
               weight \<leftarrow> checked_div (ProductLine.quantity product * unitPrice product)
                           (totalProductValue input);
               Some (sum + (ProductLine.margin product * weight)) }) 0
             (includedProducts input)
      else Some 0)"

definition calculateEstimate_checked :: "CalculationInput \<Rightarrow> CalculationResults option" where
  "calculateEstimate_checked input = do {
     let rawMaterialsCost =
           foldl (\<lambda>sum product. sum + (ProductLine.quantity product * unitPrice product)) 0
             (includedProducts input);
     let otherCosts = CalculationInput.fumigationCost input
                        + CalculationInput.customsClearanceCost input;
     let totalProcurementCost =
           rawMaterialsCost + CalculationInput.transportCost input
             + CalculationInput.packingCost input + otherCosts;
     weightedMargin \<leftarrow> weightedMargin_checked input;
     marginFraction \<leftarrow> checked_div weightedMargin 100;
     let marginAmount = totalProcurementCost * marginFraction;
     let invoiceValueBeforeDuty = totalProcurementCost + marginAmount;
     dutyFraction \<leftarrow> checked_div (exportDutyRate input) 100;
     let exportDutyAmount = invoiceValueBeforeDuty * dutyFraction;
     let invoiceValue = invoiceValueBeforeDuty + exportDutyAmount;
     let otherLogisticsCosts = CalculationInput.destinationCustomsClearance input
                                 + CalculationInput.destinationTransport input;
     let totalLogisticsCost =
           CalculationInput.freightCost input + importDuty input + otherLogisticsCosts;
     let importerTotalCost = invoiceValue + totalLogisticsCost;
     distributorFraction \<leftarrow> checked_div (distributorMargin input) 100;
     let distributorPrice = importerTotalCost * (1 + distributorFraction);
     retailerFraction \<leftarrow> checked_div (retailerMargin input) 100;
     let retailerPrice = distributorPrice * (1 + retailerFraction);
     totalMarginPercentage \<leftarrow>
       (if totalProcurementCost > 0
        then do { ratio \<leftarrow> checked_div (retailerPrice - totalProcurementCost)
                              totalProcurementCost;
                  Some (ratio * 100) }
        else Some 0);
     productBreakdown \<leftarrow>
       map_checked (\<lambda>product. do {
           let productTotal = ProductLine.quantity product * unitPrice product;
           productShare \<leftarrow> (if totalProductValue input > 0
                            then checked_div productTotal (totalProductValue input)
                            else Some 0);
           let allocatedInvoiceValue = invoiceValue * productShare;
           let allocatedDistributorPrice = distributorPrice * productShare;
           let allocatedRetailerPrice = retailerPrice * productShare;
           unitInvoicePrice \<leftarrow>
             checked_div allocatedInvoiceValue (ProductLine.quantity product);
           unitDistributorPrice \<leftarrow>
             checked_div allocatedDistributorPrice (ProductLine.quantity product);
           unitRetailerPrice \<leftarrow>
             checked_div allocatedRetailerPrice (ProductLine.quantity product);
           Some \<lparr> ProductBreakdown.name = ProductLine.name product,
                  ProductBreakdown.quantity = ProductLine.quantity product,
                  unitCost = unitPrice product,
                  ProductBreakdown.margin = ProductLine.margin product,
                  invoicePrice = unitInvoicePrice,
                  ProductBreakdown.distributorPrice = unitDistributorPrice,
                  ProductBreakdown.retailerPrice = unitRetailerPrice \<rparr> })
         (includedProducts input);
     Some \<lparr> rawMaterialsCost = rawMaterialsCost,
          CalculationResults.transportCost = CalculationInput.transportCost input,
          CalculationResults.packingCost = CalculationInput.packingCost input,
          CalculationResults.fumigationCost = CalculationInput.fumigationCost input,
          CalculationResults.customsClearanceCost = CalculationInput.customsClearanceCost input,
          otherCosts = otherCosts,
          totalProcurementCost = totalProcurementCost,
          marginAmount = marginAmount,
          exportDutyAmount = exportDutyAmount,
          invoiceValue = invoiceValue,
          CalculationResults.freightCost = CalculationInput.freightCost input,
          importDutyCost = importDuty input,
          CalculationResults.destinationCustomsClearance =
            CalculationInput.destinationCustomsClearance input,
          CalculationResults.destinationTransport = CalculationInput.destinationTransport input,
          otherLogisticsCosts = otherLogisticsCosts,
          totalLogisticsCost = totalLogisticsCost,
          importerTotalCost = importerTotalCost,
          CalculationResults.distributorPrice = distributorPrice,
          CalculationResults.retailerPrice = retailerPrice,
          totalMarginPercentage = totalMarginPercentage,
          productBreakdown = productBreakdown \<rparr> }"

text \<open>
  The check is not idle: a division by the quantity of a line that the filter drops
  fails.
\<close>

lemma checked_div_zero_quantity:
  "map_checked (\<lambda>product. checked_div 1 (ProductLine.quantity product))
     (products allExcludedInput) = None"
  by (simp add: allExcludedInput_def checked_div_def)

lemma checked_div_nonzero: "b \<noteq> 0 \<Longrightarrow> checked_div a b = Some (a / b)"
  by (simp add: checked_div_def)

lemma reduce_checked_total:
  assumes "\<And>acc x. x \<in> set xs \<Longrightarrow> f acc x = Some (g acc x)"
  shows "reduce_checked f acc xs = Some (foldl g acc xs)"
  using assms by (induction xs arbitrary: acc) simp_all

lemma map_checked_total:
  assumes "\<And>x. x \<in> set xs \<Longrightarrow> f x = Some (g x)"
  shows "map_checked f xs = Some (map g xs)"
  using assms by (induction xs) simp_all

lemma weightedMargin_checked_total:
  "weightedMargin_checked input = Some (weightedMargin input)"
proof (cases "0 < totalProductValue input")
  case True
  then have nz: "totalProductValue input \<noteq> 0" by simp
  show ?thesis
    unfolding weightedMargin_checked_def weightedMargin_def
    using True
    by (simp add: checked_div_nonzero [OF nz]
          reduce_checked_total [where g = "\<lambda>sum product. sum + ProductLine.margin product
             * (ProductLine.quantity product * unitPrice product / totalProductValue input)"])
next
  case False
  then show ?thesis
    by (simp add: weightedMargin_checked_def weightedMargin_def)
qed

lemma breakdown_checked_total:
  "map_checked (\<lambda>product. do {
           let productTotal = ProductLine.quantity product * unitPrice product;
           productShare \<leftarrow> (if totalProductValue input > 0
                            then checked_div productTotal (totalProductValue input)
                            else Some 0);
           let allocatedInvoiceValue = iv * productShare;
           let allocatedDistributorPrice = dp * productShare;
           let allocatedRetailerPrice = rp * productShare;
           unitInvoicePrice \<leftarrow>
             checked_div allocatedInvoiceValue (ProductLine.quantity product);
           unitDistributorPrice \<leftarrow>
             checked_div allocatedDistributorPrice (ProductLine.quantity product);
           unitRetailerPrice \<leftarrow>
             checked_div allocatedRetailerPrice (ProductLine.quantity product);
           Some \<lparr> ProductBreakdown.name = ProductLine.name product,
                  ProductBreakdown.quantity = ProductLine.quantity product,
                  unitCost = unitPrice product,
                  ProductBreakdown.margin = ProductLine.margin product,
                  invoicePrice = unitInvoicePrice,
                  ProductBreakdown.distributorPrice = unitDistributorPrice,
                  ProductBreakdown.retailerPrice = unitRetailerPrice \<rparr> })
         (includedProducts input)
   = Some (map (\<lambda>product.
                 let productTotal = ProductLine.quantity product * unitPrice product;
                     productShare = (if totalProductValue input > 0
                                     then productTotal / totalProductValue input else 0);
                     allocatedInvoiceValue = iv * productShare;
                     allocatedDistributorPrice = dp * productShare;
                     allocatedRetailerPrice = rp * productShare
                 in \<lparr> ProductBreakdown.name = ProductLine.name product,
                      ProductBreakdown.quantity = ProductLine.quantity product,
                      unitCost = unitPrice product,
                      ProductBreakdown.margin = ProductLine.margin product,
                      invoicePrice = allocatedInvoiceValue / ProductLine.quantity product,
                      ProductBreakdown.distributorPrice =
                        allocatedDistributorPrice / ProductLine.quantity product,
                      ProductBreakdown.retailerPrice =
                        allocatedRetailerPrice / ProductLine.quantity product \<rparr>)
               (includedProducts input))"
proof (rule map_checked_total)
  fix x assume "x \<in> set (includedProducts input)"
  then have q: "ProductLine.quantity x \<noteq> 0"
    using included_quantity_pos by fastforce
  show "(do {
           let productTotal = ProductLine.quantity x * unitPrice x;
           productShare \<leftarrow> (if totalProductValue input > 0
                            then checked_div productTotal (totalProductValue input)
                            else Some 0);
           let allocatedInvoiceValue = iv * productShare;
           let allocatedDistributorPrice = dp * productShare;
           let allocatedRetailerPrice = rp * productShare;
           unitInvoicePrice \<leftarrow>
             checked_div allocatedInvoiceValue (ProductLine.quantity x);
           unitDistributorPrice \<leftarrow>
             checked_div allocatedDistributorPrice (ProductLine.quantity x);
           unitRetailerPrice \<leftarrow>
             checked_div allocatedRetailerPrice (ProductLine.quantity x);
           Some \<lparr> ProductBreakdown.name = ProductLine.name x,
                  ProductBreakdown.quantity = ProductLine.quantity x,
                  unitCost = unitPrice x,
                  ProductBreakdown.margin = ProductLine.margin x,
                  invoicePrice = unitInvoicePrice,
                  ProductBreakdown.distributorPrice = unitDistributorPrice,
                  ProductBreakdown.retailerPrice = unitRetailerPrice \<rparr> })
     = Some (let productTotal = ProductLine.quantity x * unitPrice x;
                     productShare = (if totalProductValue input > 0
                                     then productTotal / totalProductValue input else 0);
                     allocatedInvoiceValue = iv * productShare;
                     allocatedDistributorPrice = dp * productShare;
                     allocatedRetailerPrice = rp * productShare
                 in \<lparr> ProductBreakdown.name = ProductLine.name x,
                      ProductBreakdown.quantity = ProductLine.quantity x,
                      unitCost = unitPrice x,
                      ProductBreakdown.margin = ProductLine.margin x,
                      invoicePrice = allocatedInvoiceValue / ProductLine.quantity x,
                      ProductBreakdown.distributorPrice =
                        allocatedDistributorPrice / ProductLine.quantity x,
                      ProductBreakdown.retailerPrice =
                        allocatedRetailerPrice / ProductLine.quantity x \<rparr>)"
    using q by (simp add: checked_div_def Let_def)
qed

lemma checked_div_100: "checked_div a 100 = Some (a / 100)"
  by (simp add: checked_div_def)

lemma margin_percentage_checked_total:
  "(if c > 0 then do { ratio \<leftarrow> checked_div a c; Some (ratio * 100) } else Some 0)
     = Some (if c > 0 then (a / c) * 100 else 0)"
  by (simp add: checked_div_def)

text \<open>
  Claim C8. For every input, also one with negative or zero numbers, the engine returns
  a result and no division has a zero divisor: the checked engine never fails and
  returns the result of \<open>calculateEstimate\<close>. The weight and share divisions are guarded
  by \<open>totalProductValue > 0\<close>, the per-unit divisions run over filtered lines only, whose
  quantity is positive, the margin percentage is guarded by \<open>totalProcurementCost > 0\<close>,
  and the other divisors are the constant 100.
\<close>

theorem calculateEstimate_never_fails:
  "calculateEstimate_checked input = Some (calculateEstimate input)"
  unfolding calculateEstimate_checked_def calculateEstimate_def
  apply (simp only: weightedMargin_checked_total breakdown_checked_total
           margin_percentage_checked_total checked_div_100)
  apply (simp only: Let_def bind.bind_lunit)
  done

section \<open>The procurement sum in double precision\<close>

text \<open>
  The code's numbers are IEEE 754 doubles, and a sum of doubles depends on how the
  additions are grouped. This section models the additions of lines 59 to 65 of the
  engine with the rounding of doubles. A finite double is a real \<open>n * 2 ^ e\<close> with \<open>n\<close>
  an integer: \<open>2 ^ 52 \<le> \<bar>n\<bar> < 2 ^ 53\<close> and \<open>- 1074 \<le> e \<le> 971\<close> (normal), or
  \<open>\<bar>n\<bar> < 2 ^ 52\<close> and \<open>e = - 1074\<close> (subnormal and zero). An operation computes the
  exact result and rounds it to the nearest double, a tie going to the even \<open>n\<close>. A
  result that rounds beyond the largest double is an infinity in JavaScript; here it is
  \<open>None\<close>. The two zeros are not told apart (\<^verbatim>\<open>-0 === 0\<close> holds), and \<^verbatim>\<open>NaN\<close> cannot arise
  from adding and multiplying finite doubles.
\<close>

subsection \<open>Rounding to the nearest double\<close>

text \<open>
  \<open>scale_down\<close> and \<open>scale_up\<close> find the exponent: they halve or double \<open>m\<close> until
  \<open>2 ^ 52 \<le> \<bar>m\<bar> < 2 ^ 53\<close>, or until the exponent reaches the end of its range.
\<close>

function scale_down :: "real \<Rightarrow> int \<Rightarrow> real \<times> int" where
  "scale_down m e =
     (if 2 ^ 53 \<le> \<bar>m\<bar> \<and> e < 972 then scale_down (m / 2) (e + 1) else (m, e))"
  by pat_completeness auto
termination
  by (relation "measure (\<lambda>(m, e). nat (972 - e))") auto

function scale_up :: "real \<Rightarrow> int \<Rightarrow> real \<times> int" where
  "scale_up m e =
     (if \<bar>m\<bar> < 2 ^ 52 \<and> - 1074 < e then scale_up (m * 2) (e - 1) else (m, e))"
  by pat_completeness auto
termination
  by (relation "measure (\<lambda>(m, e). nat (e + 1074))") auto

declare scale_down.simps [simp del]
declare scale_up.simps [simp del]

definition normalize_double :: "real \<Rightarrow> real \<times> int" where
  "normalize_double x = (if 2 ^ 53 \<le> \<bar>x\<bar> then scale_down x 0 else scale_up x 0)"

text \<open>Rounding to the nearest integer, a tie going to the even one.\<close>

definition round_half_even :: "real \<Rightarrow> int" where
  "round_half_even m =
     (let f = \<lfloor>m\<rfloor>; d = m - of_int f
      in if d < 1 / 2 then f else if 1 / 2 < d then f + 1
         else if even f then f else f + 1)"

definition round_to_double :: "real \<Rightarrow> real option" where
  "round_to_double x =
     (if x = 0 then Some 0
      else let (m, e) = normalize_double x;
               v = of_int (round_half_even m) * 2 powi e
           in if 2 ^ 1024 \<le> \<bar>v\<bar> then None else Some v)"

text \<open>The doubles are the values that rounding leaves as they are.\<close>

definition is_double :: "real \<Rightarrow> bool" where
  "is_double v = (round_to_double v = Some v)"

text \<open>\<^verbatim>\<open>a + b\<close> and \<^verbatim>\<open>a * b\<close> on doubles.\<close>

definition double_add :: "real \<Rightarrow> real \<Rightarrow> real option" where
  "double_add a b = round_to_double (a + b)"

definition double_mul :: "real \<Rightarrow> real \<Rightarrow> real option" where
  "double_mul a b = round_to_double (a * b)"

subsection \<open>Lines 59 to 65 of the engine, in doubles\<close>

text \<open>
  \<^verbatim>\<open>rawMaterialsCost\<close> is the \<^verbatim>\<open>reduce\<close> of line 59, \<^verbatim>\<open>otherCosts\<close> is line 64, and
  \<^verbatim>\<open>totalProcurementCost\<close> is line 65:
  \<^verbatim>\<open>rawMaterialsCost + input.transportCost + input.packingCost + otherCosts\<close>, which
  JavaScript adds from left to right.
\<close>

definition rawMaterialsCost_double :: "CalculationInput \<Rightarrow> real option" where
  "rawMaterialsCost_double input =
     reduce_checked (\<lambda>sum product. do {
         lineValue \<leftarrow> double_mul (ProductLine.quantity product) (unitPrice product);
         double_add sum lineValue }) 0
       (includedProducts input)"

definition otherCosts_double :: "CalculationInput \<Rightarrow> real option" where
  "otherCosts_double input =
     double_add (CalculationInput.fumigationCost input)
       (CalculationInput.customsClearanceCost input)"

definition totalProcurementCost_double :: "CalculationInput \<Rightarrow> real option" where
  "totalProcurementCost_double input = do {
     rawMaterialsCost \<leftarrow> rawMaterialsCost_double input;
     otherCosts \<leftarrow> otherCosts_double input;
     withTransport \<leftarrow> double_add rawMaterialsCost (CalculationInput.transportCost input);
     withPacking \<leftarrow> double_add withTransport (CalculationInput.packingCost input);
     double_add withPacking otherCosts }"

text \<open>
  The sum of the claim, added from left to right:
  \<^verbatim>\<open>rawMaterialsCost + transportCost + packingCost + fumigationCost + customsClearanceCost\<close>.
\<close>

definition fiveTermSum_double :: "CalculationInput \<Rightarrow> real option" where
  "fiveTermSum_double input = do {
     rawMaterialsCost \<leftarrow> rawMaterialsCost_double input;
     withTransport \<leftarrow> double_add rawMaterialsCost (CalculationInput.transportCost input);
     withPacking \<leftarrow> double_add withTransport (CalculationInput.packingCost input);
     withFumigation \<leftarrow> double_add withPacking (CalculationInput.fumigationCost input);
     double_add withFumigation (CalculationInput.customsClearanceCost input) }"

text \<open>
  No product, and the costs \<^verbatim>\<open>0.1\<close>, \<^verbatim>\<open>0.1\<close>, \<^verbatim>\<open>0.1\<close>, \<^verbatim>\<open>2.2\<close>: the fields are the doubles
  that these literals denote.
\<close>

definition tenthsInput :: CalculationInput where
  "tenthsInput =
     \<lparr> products = [],
       CalculationInput.transportCost = 3602879701896397 / 36028797018963968,
       CalculationInput.packingCost = 3602879701896397 / 36028797018963968,
       CalculationInput.fumigationCost = 3602879701896397 / 36028797018963968,
       CalculationInput.customsClearanceCost = 2476979795053773 / 1125899906842624,
       exportDutyRate = 0, CalculationInput.freightCost = 0, importDuty = 0,
       CalculationInput.destinationCustomsClearance = 0,
       CalculationInput.destinationTransport = 0,
       distributorMargin = 0, retailerMargin = 0 \<rparr>"

text \<open>No product, the costs \<^verbatim>\<open>0.1\<close>, \<^verbatim>\<open>2.2\<close>, \<^verbatim>\<open>0.1\<close>, and no customs clearance cost.\<close>

definition absentCustomsInput :: CalculationInput where
  "absentCustomsInput =
     \<lparr> products = [],
       CalculationInput.transportCost = 3602879701896397 / 36028797018963968,
       CalculationInput.packingCost = 2476979795053773 / 1125899906842624,
       CalculationInput.fumigationCost = 3602879701896397 / 36028797018963968,
       CalculationInput.customsClearanceCost = 0,
       exportDutyRate = 0, CalculationInput.freightCost = 0, importDuty = 0,
       CalculationInput.destinationCustomsClearance = 0,
       CalculationInput.destinationTransport = 0,
       distributorMargin = 0, retailerMargin = 0 \<rparr>"

subsection \<open>Properties of the rounding\<close>

lemma scale_down_power:
  assumes "\<bar>m\<bar> < 2 ^ 53" and "2 ^ 52 \<le> \<bar>m\<bar>" and "j + int k \<le> 971"
  shows "scale_down (m * 2 ^ k) j = (m, j + int k)"
  using assms
proof (induction k arbitrary: j)
  case 0
  then show ?case by (simp add: scale_down.simps)
next
  case (Suc k)
  have big: "2 ^ 53 \<le> \<bar>m * 2 ^ Suc k\<bar>"
  proof -
    have "(2::real) ^ 53 = 2 ^ 52 * 2" by simp
    also have "\<dots> \<le> \<bar>m\<bar> * 2 ^ Suc k"
      using Suc.prems(2) by (intro mult_mono) simp_all
    finally show ?thesis by (simp add: abs_mult)
  qed
  have "scale_down (m * 2 ^ Suc k) j = scale_down (m * 2 ^ k) (j + 1)"
    using big Suc.prems(3) by (subst scale_down.simps) simp
  also have "\<dots> = (m, j + 1 + int k)"
    using Suc.prems by (intro Suc.IH) simp_all
  finally show ?case by simp
qed

lemma scale_up_power:
  assumes "\<bar>m\<bar> < 2 ^ 53" and "2 ^ 52 \<le> \<bar>m\<bar>" and "- 1074 \<le> j - int k"
  shows "scale_up (m / 2 ^ k) j = (m, j - int k)"
  using assms
proof (induction k arbitrary: j)
  case 0
  then show ?case by (simp add: scale_up.simps)
next
  case (Suc k)
  have small: "\<bar>m / 2 ^ Suc k\<bar> < 2 ^ 52"
  proof -
    have "\<bar>m\<bar> / 2 ^ Suc k \<le> \<bar>m\<bar> / 2"
      by (intro divide_left_mono) simp_all
    also have "\<dots> < 2 ^ 52" using Suc.prems(1) by simp
    finally show ?thesis by (simp add: abs_divide)
  qed
  have "scale_up (m / 2 ^ Suc k) j = scale_up (m / 2 ^ k) (j - 1)"
    using small Suc.prems(3) by (subst scale_up.simps) simp
  also have "\<dots> = (m, j - 1 - int k)"
    using Suc.prems by (intro Suc.IH) simp_all
  finally show ?case by simp
qed

lemma scale_up_subnormal:
  assumes "\<bar>m\<bar> < 2 ^ 52" and "j - int k = - 1074"
  shows "scale_up (m / 2 ^ k) j = (m, - 1074)"
  using assms
proof (induction k arbitrary: j)
  case 0
  then show ?case by (simp add: scale_up.simps)
next
  case (Suc k)
  have small: "\<bar>m / 2 ^ Suc k\<bar> < 2 ^ 52"
  proof -
    have "(1::real) \<le> 2 ^ Suc k"
      by (rule one_le_power) simp
    then have "\<bar>m\<bar> / 2 ^ Suc k \<le> \<bar>m\<bar> / 1"
      by (intro divide_left_mono) simp_all
    also have "\<dots> < 2 ^ 52" using Suc.prems(1) by simp
    finally show ?thesis by (simp add: abs_divide)
  qed
  have "scale_up (m / 2 ^ Suc k) j = scale_up (m / 2 ^ k) (j - 1)"
    using small Suc.prems(2) by (subst scale_up.simps) simp
  also have "\<dots> = (m, - 1074)"
    using Suc.prems by (intro Suc.IH) simp_all
  finally show ?case by simp
qed


lemma normalize_normal:
  assumes "\<bar>m\<bar> < 2 ^ 53" and "2 ^ 52 \<le> \<bar>m\<bar>" and "- 1074 \<le> e" and "e \<le> 971"
  shows "normalize_double (m * 2 powi e) = (m, e)"
proof (cases "1 \<le> e")
  case True
  define k where "k = nat e"
  have e: "e = int k" and k: "1 \<le> k" using True by (simp_all add: k_def)
  have x: "m * 2 powi e = m * 2 ^ k" by (simp add: e)
  have "(2::real) ^ 53 = 2 ^ 52 * 2 ^ 1" by simp
  also have "\<dots> \<le> \<bar>m\<bar> * 2 ^ k"
    using assms(2) k by (intro mult_mono power_increasing) simp_all
  finally have "2 ^ 53 \<le> \<bar>m * 2 ^ k\<bar>" by (simp add: abs_mult)
  then have "normalize_double (m * 2 ^ k) = scale_down (m * 2 ^ k) 0"
    by (simp add: normalize_double_def)
  also have "\<dots> = (m, 0 + int k)"
    using assms e by (intro scale_down_power) simp_all
  finally show ?thesis by (simp add: x e)
next
  case False
  define k where "k = nat (- e)"
  have e: "e = - int k" using False by (simp add: k_def)
  have x: "m * 2 powi e = m / 2 ^ k"
    by (simp add: e power_int_minus divide_inverse)
  have "(1::real) \<le> 2 ^ k" by (rule one_le_power) simp
  then have "\<bar>m\<bar> / 2 ^ k \<le> \<bar>m\<bar> / 1"
    by (intro divide_left_mono) simp_all
  then have "\<bar>m / 2 ^ k\<bar> < 2 ^ 53"
    using assms(1) by (simp add: abs_divide)
  then have "normalize_double (m / 2 ^ k) = scale_up (m / 2 ^ k) 0"
    by (simp add: normalize_double_def)
  also have "\<dots> = (m, 0 - int k)"
    using assms e by (intro scale_up_power) simp_all
  finally show ?thesis by (simp only: x) (simp add: e)
qed

lemma normalize_subnormal:
  assumes "\<bar>m\<bar> < 2 ^ 52" and "e = - 1074"
  shows "normalize_double (m * 2 powi e) = (m, e)"
proof -
  define k where "k = nat (- e)"
  have e: "e = - int k" using assms(2) by (simp add: k_def)
  have x: "m * 2 powi e = m / 2 ^ k"
    by (simp add: e power_int_minus divide_inverse)
  have "(1::real) \<le> 2 ^ k" by (rule one_le_power) simp
  then have "\<bar>m\<bar> / 2 ^ k \<le> \<bar>m\<bar> / 1"
    by (intro divide_left_mono) simp_all
  then have "\<bar>m / 2 ^ k\<bar> < 2 ^ 53"
    using assms(1) by (simp add: abs_divide)
  then have "normalize_double (m / 2 ^ k) = scale_up (m / 2 ^ k) 0"
    by (simp add: normalize_double_def)
  also have "\<dots> = (m, - 1074)"
    using assms e by (intro scale_up_subnormal) simp_all
  finally show ?thesis by (simp only: x) (simp add: assms(2))
qed


lemma round_half_even_cases:
  "round_half_even m = \<lfloor>m\<rfloor> \<or> (round_half_even m = \<lfloor>m\<rfloor> + 1 \<and> of_int \<lfloor>m\<rfloor> < m)"
  by (auto simp add: round_half_even_def Let_def)

lemma round_half_even_of_int: "round_half_even (of_int n) = n"
  by (simp add: round_half_even_def Let_def)

lemma round_half_even_lower:
  assumes "of_int a \<le> m"
  shows "a \<le> round_half_even m"
proof -
  have "a \<le> \<lfloor>m\<rfloor>" using assms by (simp add: le_floor_iff)
  with round_half_even_cases [of m] show ?thesis by auto
qed

lemma round_half_even_upper:
  assumes "m \<le> of_int b"
  shows "round_half_even m \<le> b"
proof -
  have f: "\<lfloor>m\<rfloor> \<le> b" using assms by (simp add: floor_le_iff)
  show ?thesis
  proof (cases "round_half_even m = \<lfloor>m\<rfloor>")
    case True
    with f show ?thesis by simp
  next
    case False
    with round_half_even_cases [of m]
    have r: "round_half_even m = \<lfloor>m\<rfloor> + 1" and lt: "of_int \<lfloor>m\<rfloor> < m" by auto
    from lt assms have "of_int \<lfloor>m\<rfloor> < (of_int b :: real)" by linarith
    then have "\<lfloor>m\<rfloor> < b" by simp
    with r show ?thesis by simp
  qed
qed

lemma round_half_even_abs_lower:
  assumes "of_int a \<le> \<bar>m\<bar>" and "0 \<le> a"
  shows "a \<le> \<bar>round_half_even m\<bar>"
proof (cases "0 \<le> m")
  case True
  with assms have "a \<le> round_half_even m" by (intro round_half_even_lower) simp
  then show ?thesis by simp
next
  case False
  with assms have "m \<le> of_int (- a)" by simp
  then have "round_half_even m \<le> - a" by (rule round_half_even_upper)
  then show ?thesis by simp
qed

lemma round_half_even_abs_upper:
  assumes "\<bar>m\<bar> \<le> of_int b"
  shows "\<bar>round_half_even m\<bar> \<le> b"
proof -
  from assms have "m \<le> of_int b" and "of_int (- b) \<le> m" by simp_all
  then have "round_half_even m \<le> b" and "- b \<le> round_half_even m"
    by (auto intro: round_half_even_upper round_half_even_lower)
  then show ?thesis by simp
qed

lemma scale_down_result:
  "scale_down m e = (m', e') \<Longrightarrow>
     m' * 2 powi e' = m * 2 powi e \<and> e \<le> e'
     \<and> (2 ^ 52 \<le> \<bar>m\<bar> \<longrightarrow> 2 ^ 52 \<le> \<bar>m'\<bar>)
     \<and> (e \<le> 972 \<longrightarrow> e' \<le> 972)
     \<and> (\<bar>m'\<bar> < 2 ^ 53 \<or> 972 \<le> e')"
proof (induction m e arbitrary: m' e' rule: scale_down.induct)
  case (1 m e)
  show ?case
  proof (cases "2 ^ 53 \<le> \<bar>m\<bar> \<and> e < 972")
    case True
    then have "scale_down (m / 2) (e + 1) = (m', e')"
      using "1.prems" by (subst (asm) scale_down.simps) simp
    from "1.IH" [OF True this] True show ?thesis
      by (auto simp add: power_int_add_1)
  next
    case False
    have "scale_down m e = (m, e)"
      by (subst scale_down.simps) (use False in auto)
    with "1.prems" have "m' = m" and "e' = e" by simp_all
    with False show ?thesis by auto
  qed
qed

lemma scale_up_result:
  "scale_up m e = (m', e') \<Longrightarrow>
     m' * 2 powi e' = m * 2 powi e \<and> e' \<le> e
     \<and> (\<bar>m\<bar> < 2 ^ 53 \<longrightarrow> \<bar>m'\<bar> < 2 ^ 53)
     \<and> (- 1074 \<le> e \<longrightarrow> - 1074 \<le> e')
     \<and> (2 ^ 52 \<le> \<bar>m'\<bar> \<or> e' \<le> - 1074)"
proof (induction m e arbitrary: m' e' rule: scale_up.induct)
  case (1 m e)
  show ?case
  proof (cases "\<bar>m\<bar> < 2 ^ 52 \<and> - 1074 < e")
    case True
    then have "scale_up (m * 2) (e - 1) = (m', e')"
      using "1.prems" by (subst (asm) scale_up.simps) simp
    from "1.IH" [OF True this] True show ?thesis
      by (auto simp add: power_int_diff)
  next
    case False
    have "scale_up m e = (m, e)"
      by (subst scale_up.simps) (use False in auto)
    with "1.prems" have "m' = m" and "e' = e" by simp_all
    with False show ?thesis by auto
  qed
qed

lemma normalize_double_result:
  assumes "normalize_double x = (m, e)"
  shows "x = m * 2 powi e \<and> - 1074 \<le> e \<and> e \<le> 972
     \<and> ((2 ^ 52 \<le> \<bar>m\<bar> \<and> \<bar>m\<bar> < 2 ^ 53) \<or> (e = - 1074 \<and> \<bar>m\<bar> < 2 ^ 52)
         \<or> (e = 972 \<and> 2 ^ 53 \<le> \<bar>m\<bar>))"
proof (cases "2 ^ 53 \<le> \<bar>x\<bar>")
  case True
  with assms have "scale_down x 0 = (m, e)" by (simp add: normalize_double_def)
  from scale_down_result [OF this] True show ?thesis by auto
next
  case False
  with assms have "scale_up x 0 = (m, e)" by (simp add: normalize_double_def)
  from scale_up_result [OF this] False show ?thesis by auto
qed


lemma round_to_double_normal:
  assumes "\<bar>m\<bar> < 2 ^ 53" and "2 ^ 52 \<le> \<bar>m\<bar>" and "- 1074 \<le> e" and "e \<le> 971"
  shows "round_to_double (m * 2 powi e) =
           (if 2 ^ 1024 \<le> \<bar>real_of_int (round_half_even m) * 2 powi e\<bar> then None
            else Some (real_of_int (round_half_even m) * 2 powi e))"
proof -
  have "m \<noteq> 0" using assms(2) by auto
  then have "m * 2 powi e \<noteq> 0" by simp
  then show ?thesis
    by (simp only: round_to_double_def normalize_normal [OF assms] Let_def if_False
          prod.case)
qed

lemma round_to_double_subnormal:
  assumes "\<bar>m\<bar> < 2 ^ 52" and "e = - 1074"
  shows "round_to_double (m * 2 powi e) = Some (real_of_int (round_half_even m) * 2 powi e)"
proof (cases "m = 0")
  case True
  then show ?thesis by (simp add: round_to_double_def round_half_even_def)
next
  case False
  then have nz: "m * 2 powi e \<noteq> 0" by simp
  have "\<bar>m\<bar> \<le> of_int (2 ^ 52)" using assms(1) by simp
  then have n: "\<bar>round_half_even m\<bar> \<le> 2 ^ 52" by (rule round_half_even_abs_upper)
  have p: "(2::real) powi e \<le> 1"
    using power_int_increasing [of e 0 "2::real"] assms(2) by simp
  have "\<bar>real_of_int (round_half_even m) * 2 powi e\<bar>
          = real_of_int \<bar>round_half_even m\<bar> * 2 powi e"
    by (simp add: abs_mult)
  also have "\<dots> \<le> real_of_int (2 ^ 52) * 1"
    using n p by (intro mult_mono) simp_all
  also have "\<dots> < (2::real) ^ 1024"
    using power_strict_increasing [of 52 1024 "2::real"] by simp
  finally have "\<not> 2 ^ 1024 \<le> \<bar>real_of_int (round_half_even m) * 2 powi e\<bar>" by simp
  then show ?thesis
    using nz
    by (simp only: round_to_double_def normalize_subnormal [OF assms] Let_def if_False
          prod.case)
qed


lemma double_overflow:
  assumes "2 ^ j \<le> \<bar>n\<bar>" and "1024 \<le> int j + e"
  shows "2 ^ 1024 \<le> \<bar>real_of_int n * 2 powi e\<bar>"
proof -
  have "(2::real) ^ 1024 = 2 powi 1024" by simp
  also have "\<dots> \<le> 2 powi (int j + e)"
    using assms(2) by (intro power_int_increasing) simp_all
  also have "\<dots> = 2 ^ j * 2 powi e"
    by (simp add: power_int_add)
  also have "\<dots> \<le> real_of_int \<bar>n\<bar> * 2 powi e"
  proof (intro mult_right_mono)
    have "real_of_int (2 ^ j) \<le> real_of_int \<bar>n\<bar>"
      using assms(1) by (simp only: of_int_le_iff)
    then show "(2::real) ^ j \<le> real_of_int \<bar>n\<bar>" by simp
  qed simp
  finally show ?thesis by (simp add: abs_mult)
qed

lemma round_to_double_canonical:
  assumes "(2 ^ 52 \<le> \<bar>n\<bar> \<and> \<bar>n\<bar> < 2 ^ 53 \<and> - 1074 \<le> e \<and> e \<le> 971)
             \<or> (\<bar>n\<bar> < 2 ^ 52 \<and> e = - 1074)"
    and "\<not> 2 ^ 1024 \<le> \<bar>real_of_int n * 2 powi e\<bar>"
  shows "round_to_double (real_of_int n * 2 powi e) = Some (real_of_int n * 2 powi e)"
  using assms(1)
proof
  assume a: "2 ^ 52 \<le> \<bar>n\<bar> \<and> \<bar>n\<bar> < 2 ^ 53 \<and> - 1074 \<le> e \<and> e \<le> 971"
  then have "real_of_int (2 ^ 52) \<le> real_of_int \<bar>n\<bar>"
    and "real_of_int \<bar>n\<bar> < real_of_int (2 ^ 53)"
    by (simp_all only: of_int_le_iff of_int_less_iff)
  then have "\<bar>real_of_int n\<bar> < 2 ^ 53" and "2 ^ 52 \<le> \<bar>real_of_int n\<bar>" by simp_all
  from round_to_double_normal [OF this] a assms(2) show ?thesis
    by (simp add: round_half_even_of_int)
next
  assume a: "\<bar>n\<bar> < 2 ^ 52 \<and> e = - 1074"
  then have "real_of_int \<bar>n\<bar> < real_of_int (2 ^ 52)"
    by (simp only: of_int_less_iff)
  then have "\<bar>real_of_int n\<bar> < 2 ^ 52" by simp
  from round_to_double_subnormal [OF this] a show ?thesis
    by (simp add: round_half_even_of_int)
qed

theorem round_to_double_idem:
  assumes "round_to_double x = Some v"
  shows "round_to_double v = Some v"
proof (cases "x = 0")
  case True
  with assms have "v = 0" by (simp add: round_to_double_def)
  then show ?thesis by (simp add: round_to_double_def)
next
  case False
  obtain m e where ne: "normalize_double x = (m, e)"
    by (cases "normalize_double x")
  define n where "n = round_half_even m"
  from assms False ne have v: "v = real_of_int n * 2 powi e"
    and fin: "\<not> 2 ^ 1024 \<le> \<bar>real_of_int n * 2 powi e\<bar>"
    by (auto simp add: round_to_double_def n_def Let_def split: if_splits)
  from normalize_double_result [OF ne]
  have range: "- 1074 \<le> e" "e \<le> 972"
    and shape: "(2 ^ 52 \<le> \<bar>m\<bar> \<and> \<bar>m\<bar> < 2 ^ 53) \<or> (e = - 1074 \<and> \<bar>m\<bar> < 2 ^ 52)
         \<or> (e = 972 \<and> 2 ^ 53 \<le> \<bar>m\<bar>)"
    by simp_all
  from shape consider
    (normal) "2 ^ 52 \<le> \<bar>m\<bar>" "\<bar>m\<bar> < 2 ^ 53"
    | (subnormal) "e = - 1074" "\<bar>m\<bar> < 2 ^ 52"
    | (huge) "e = 972" "2 ^ 53 \<le> \<bar>m\<bar>"
    by blast
  then have "round_to_double (real_of_int n * 2 powi e) = Some (real_of_int n * 2 powi e)"
  proof cases
    case normal
    have lo: "2 ^ 52 \<le> \<bar>n\<bar>"
      unfolding n_def using normal(1) by (intro round_half_even_abs_lower) simp_all
    have hi: "\<bar>n\<bar> \<le> 2 ^ 53"
      unfolding n_def using normal(2) by (intro round_half_even_abs_upper) simp
    have e971: "e \<le> 971"
    proof (rule ccontr)
      assume "\<not> e \<le> 971"
      then have "1024 \<le> int 52 + e" by simp
      from double_overflow [OF lo this] fin show False by simp
    qed
    show ?thesis
    proof (cases "\<bar>n\<bar> < 2 ^ 53")
      case True
      with lo range e971 fin show ?thesis
        by (intro round_to_double_canonical) simp_all
    next
      case False
      with hi have top: "\<bar>n\<bar> = 2 ^ 53" by simp
      have e970: "e \<le> 970"
      proof (rule ccontr)
        assume "\<not> e \<le> 970"
        then have "1024 \<le> int 53 + e" by simp
        moreover have "2 ^ 53 \<le> \<bar>n\<bar>" using top by simp
        ultimately show False using double_overflow fin by blast
      qed
      define k where "k = n div 2"
      from top have "n = 2 ^ 53 \<or> n = - (2 ^ 53)" by linarith
      then have k: "n = 2 * k" and kabs: "\<bar>k\<bar> = 2 ^ 52"
        by (auto simp add: k_def)
      have same: "real_of_int n * 2 powi e = real_of_int k * 2 powi (e + 1)"
        by (simp add: k power_int_add_1)
      have "round_to_double (real_of_int k * 2 powi (e + 1))
              = Some (real_of_int k * 2 powi (e + 1))"
        using kabs range e970 fin same
        by (intro round_to_double_canonical) simp_all
      then show ?thesis by (simp only: same)
    qed
  next
    case subnormal
    have hi: "\<bar>n\<bar> \<le> 2 ^ 52"
      unfolding n_def using subnormal(2) by (intro round_half_even_abs_upper) simp
    show ?thesis
    proof (cases "\<bar>n\<bar> < 2 ^ 52")
      case True
      with subnormal(1) fin show ?thesis
        by (intro round_to_double_canonical) simp_all
    next
      case False
      with hi have "\<bar>n\<bar> = 2 ^ 52" by simp
      with subnormal(1) fin show ?thesis
        by (intro round_to_double_canonical) simp_all
    qed
  next
    case huge
    have "2 ^ 53 \<le> \<bar>n\<bar>"
      unfolding n_def using huge(2) by (intro round_half_even_abs_lower) simp_all
    moreover have "1024 \<le> int 53 + e" using huge(1) by simp
    ultimately show ?thesis using double_overflow fin by blast
  qed
  then show ?thesis by (simp only: v)
qed


lemma round_to_double_scaled:
  assumes "2 ^ 52 \<le> \<bar>x * 2 powi k\<bar>" and "\<bar>x * 2 powi k\<bar> < 2 ^ 53"
    and "- 970 \<le> k" and "k \<le> 1074"
  shows "round_to_double x = Some (real_of_int (round_half_even (x * 2 powi k)) * 2 powi (- k))"
proof -
  define m where "m = x * 2 powi k"
  have x: "x = m * 2 powi (- k)"
    by (simp add: m_def power_int_minus)
  have r: "- 1074 \<le> - k" "- k \<le> 971" using assms(3,4) by simp_all
  have "\<bar>m\<bar> \<le> real_of_int (2 ^ 53)" using assms(2) by (simp add: m_def)
  then have n: "\<bar>round_half_even m\<bar> \<le> 2 ^ 53" by (rule round_half_even_abs_upper)
  have "\<bar>real_of_int (round_half_even m) * 2 powi (- k)\<bar>
          = real_of_int \<bar>round_half_even m\<bar> * 2 powi (- k)"
    by (simp add: abs_mult)
  also have "\<dots> \<le> real_of_int (2 ^ 53) * 2 powi 970"
    using n assms(3) by (intro mult_mono power_int_increasing) simp_all
  also have "\<dots> = 2 powi (53 + 970)"
    by (subst power_int_add) simp_all
  also have "\<dots> < (2::real) powi 1024"
    by (intro power_int_strict_increasing) simp_all
  finally have "\<not> 2 ^ 1024 \<le> \<bar>real_of_int (round_half_even m) * 2 powi (- k)\<bar>"
    by simp
  with round_to_double_normal [of m "- k"] assms(1,2) r
  have "round_to_double (m * 2 powi (- k))
          = Some (real_of_int (round_half_even m) * 2 powi (- k))"
    by (simp add: m_def)
  then show ?thesis by (simp only: x [symmetric]) (simp only: m_def)
qed

subsection \<open>Adding zero\<close>

lemma double_add_zero_right: "is_double a \<Longrightarrow> double_add a 0 = Some a"
  by (simp add: double_add_def is_double_def)

lemma double_add_zero_left: "is_double a \<Longrightarrow> double_add 0 a = Some a"
  by (simp add: double_add_def is_double_def)

lemma double_add_is_double: "double_add a b = Some v \<Longrightarrow> is_double v"
  unfolding double_add_def is_double_def by (rule round_to_double_idem)

lemma five_term_exact_when_one_absent:
  assumes "is_double (CalculationInput.fumigationCost input)"
    and "is_double (CalculationInput.customsClearanceCost input)"
    and "CalculationInput.fumigationCost input = 0
           \<or> CalculationInput.customsClearanceCost input = 0"
  shows "totalProcurementCost_double input = fiveTermSum_double input"
proof (cases "rawMaterialsCost_double input")
  case None
  then show ?thesis
    by (simp add: totalProcurementCost_double_def fiveTermSum_double_def)
next
  case (Some raw)
  show ?thesis
  proof (cases "double_add raw (CalculationInput.transportCost input)")
    case None
    with Some assms show ?thesis
      by (auto simp add: totalProcurementCost_double_def fiveTermSum_double_def
            otherCosts_double_def double_add_zero_right double_add_zero_left)
  next
    case s1: (Some withTransport)
    show ?thesis
    proof (cases "double_add withTransport (CalculationInput.packingCost input)")
      case None
      with Some s1 assms show ?thesis
        by (auto simp add: totalProcurementCost_double_def fiveTermSum_double_def
              otherCosts_double_def double_add_zero_right double_add_zero_left)
    next
      case s2: (Some withPacking)
      have d: "is_double withPacking" using s2 by (rule double_add_is_double)
      from assms(3) show ?thesis
      proof
        assume z: "CalculationInput.fumigationCost input = 0"
        with Some s1 s2 d assms(2) show ?thesis
          by (simp add: totalProcurementCost_double_def fiveTermSum_double_def
                otherCosts_double_def double_add_zero_right double_add_zero_left)
      next
        assume z: "CalculationInput.customsClearanceCost input = 0"
        show ?thesis
        proof (cases "double_add withPacking (CalculationInput.fumigationCost input)")
          case None
          with Some s1 s2 z assms(1) show ?thesis
            by (simp add: totalProcurementCost_double_def fiveTermSum_double_def
                  otherCosts_double_def double_add_zero_right)
        next
          case s3: (Some withFumigation)
          have "is_double withFumigation" using s3 by (rule double_add_is_double)
          with Some s1 s2 s3 z assms(1) show ?thesis
            by (simp add: totalProcurementCost_double_def fiveTermSum_double_def
                  otherCosts_double_def double_add_zero_right)
        qed
      qed
    qed
  qed
qed

subsection \<open>Evaluating the sums\<close>

lemma literal_tenth:
  "round_to_double (1 / 10) = Some (3602879701896397 / 36028797018963968)"
  by (subst round_to_double_scaled [where k = 56])
     (simp_all add: round_half_even_def Let_def)

lemma literal_2_2:
  "round_to_double (22 / 10) = Some (2476979795053773 / 1125899906842624)"
  by (subst round_to_double_scaled [where k = 51])
     (simp_all add: round_half_even_def Let_def)

lemma literal_2_2_reduced:
  "round_to_double (11 / 5) = Some (2476979795053773 / 1125899906842624)"
  using literal_2_2 by simp

lemma tenths_step1:
  "double_add 0 (3602879701896397 / 36028797018963968)
     = Some (3602879701896397 / 36028797018963968)"
  unfolding double_add_def
  by (subst round_to_double_scaled [where k = 56])
     (simp_all add: round_half_even_def Let_def)

lemma tenths_step2:
  "double_add (3602879701896397 / 36028797018963968) (3602879701896397 / 36028797018963968)
     = Some (3602879701896397 / 18014398509481984)"
  unfolding double_add_def
  by (subst round_to_double_scaled [where k = 55])
     (simp_all add: round_half_even_def Let_def)

lemma tenths_other:
  "double_add (3602879701896397 / 36028797018963968) (2476979795053773 / 1125899906842624)
     = Some (5179139571476071 / 2251799813685248)"
  unfolding double_add_def
  by (subst round_to_double_scaled [where k = 51])
     (simp_all add: round_half_even_def Let_def)

lemma tenths_code_total:
  "double_add (3602879701896397 / 18014398509481984) (5179139571476071 / 2251799813685248)
     = Some (5629499534213121 / 2251799813685248)"
  unfolding double_add_def
  by (subst round_to_double_scaled [where k = 51])
     (simp_all add: round_half_even_def Let_def)

lemma tenths_flat3:
  "double_add (3602879701896397 / 18014398509481984) (3602879701896397 / 36028797018963968)
     = Some (1351079888211149 / 4503599627370496)"
  unfolding double_add_def
  by (subst round_to_double_scaled [where k = 54])
     (simp_all add: round_half_even_def Let_def)

lemma tenths_flat_total:
  "double_add (1351079888211149 / 4503599627370496) (2476979795053773 / 1125899906842624)
     = Some (5 / 2)"
  unfolding double_add_def
  by (subst round_to_double_scaled [where k = 51])
     (simp_all add: round_half_even_def Let_def)

lemmas tenths_steps =
  tenths_step1 tenths_step2 tenths_other tenths_code_total tenths_flat3 tenths_flat_total

lemma tenthsInput_raw: "rawMaterialsCost_double tenthsInput = Some 0"
  by (simp add: rawMaterialsCost_double_def includedProducts_def tenthsInput_def)

lemma tenthsInput_code:
  "totalProcurementCost_double tenthsInput = Some (5629499534213121 / 2251799813685248)"
  by (simp add: totalProcurementCost_double_def otherCosts_double_def tenthsInput_raw)
     (simp add: tenthsInput_def tenths_steps)

lemma tenthsInput_flat: "fiveTermSum_double tenthsInput = Some (5 / 2)"
  by (simp add: fiveTermSum_double_def tenthsInput_raw)
     (simp add: tenthsInput_def tenths_steps)

lemma tenths_step4:
  "double_add (5179139571476071 / 2251799813685248) (3602879701896397 / 36028797018963968)
     = Some (1351079888211149 / 562949953421312)"
  unfolding double_add_def
  by (subst round_to_double_scaled [where k = 51])
     (simp_all add: round_half_even_def Let_def)

lemma is_double_tenth: "is_double (3602879701896397 / 36028797018963968)"
  using tenths_step1 by (simp add: is_double_def double_add_def)

lemma is_double_zero: "is_double 0"
  by (simp add: is_double_def round_to_double_def)

lemma absentCustomsInput_raw: "rawMaterialsCost_double absentCustomsInput = Some 0"
  by (simp add: rawMaterialsCost_double_def includedProducts_def absentCustomsInput_def)

lemma absentCustomsInput_code:
  "totalProcurementCost_double absentCustomsInput = Some (1351079888211149 / 562949953421312)"
  by (simp add: totalProcurementCost_double_def otherCosts_double_def absentCustomsInput_raw)
     (simp add: absentCustomsInput_def tenths_steps tenths_step4 is_double_tenth
        double_add_zero_right)

subsection \<open>The five-term sum\<close>

text \<open>
  Claim C7, as stated, fails in the code's arithmetic. With no product and the costs
  \<^verbatim>\<open>0.1\<close>, \<^verbatim>\<open>0.1\<close>, \<^verbatim>\<open>0.1\<close> and \<^verbatim>\<open>2.2\<close>, the code computes \<^verbatim>\<open>0.2 + (0.1 + 2.2)\<close>, which is
  \<^verbatim>\<open>2.5000000000000004\<close>, while the five-term sum added from left to right is \<^verbatim>\<open>2.5\<close>;
  the exact sum of the five doubles is a third value, which no double equals.
\<close>

theorem totalProcurementCost_five_term_counterexample:
  "round_to_double (1 / 10) = Some (CalculationInput.transportCost tenthsInput)
   \<and> round_to_double (1 / 10) = Some (CalculationInput.packingCost tenthsInput)
   \<and> round_to_double (1 / 10) = Some (CalculationInput.fumigationCost tenthsInput)
   \<and> round_to_double (22 / 10) = Some (CalculationInput.customsClearanceCost tenthsInput)
   \<and> totalProcurementCost_double tenthsInput = Some (5629499534213121 / 2251799813685248)
   \<and> fiveTermSum_double tenthsInput = Some (5 / 2)
   \<and> totalProcurementCost_double tenthsInput \<noteq> fiveTermSum_double tenthsInput
   \<and> totalProcurementCost_double tenthsInput \<noteq>
       Some (0 + CalculationInput.transportCost tenthsInput
               + CalculationInput.packingCost tenthsInput
               + CalculationInput.fumigationCost tenthsInput
               + CalculationInput.customsClearanceCost tenthsInput)"
  by (simp add: tenthsInput_code tenthsInput_flat literal_tenth literal_2_2_reduced)
     (simp add: tenthsInput_def)

text \<open>
  Claim C7, amended. For every input, the total procurement cost of the result equals
  the sum of its raw materials, transport, packing, fumigation and customs clearance
  costs over exact arithmetic. In the code's doubles it is the raw materials cost plus
  the transport cost plus the packing cost, plus the sum of the fumigation and the
  customs clearance cost, which the code adds first; for inputs that are doubles this
  equals the five-term sum added from left to right whenever the fumigation cost or
  the customs clearance cost is 0.
\<close>

theorem totalProcurementCost_five_term_sum:
  "totalProcurementCost (calculateEstimate input) =
     rawMaterialsCost (calculateEstimate input)
       + CalculationResults.transportCost (calculateEstimate input)
       + CalculationResults.packingCost (calculateEstimate input)
       + CalculationResults.fumigationCost (calculateEstimate input)
       + CalculationResults.customsClearanceCost (calculateEstimate input)
   \<and> totalProcurementCost_double input = do {
         rawMaterialsCost \<leftarrow> rawMaterialsCost_double input;
         withTransport \<leftarrow> double_add rawMaterialsCost (CalculationInput.transportCost input);
         withPacking \<leftarrow> double_add withTransport (CalculationInput.packingCost input);
         otherCosts \<leftarrow> double_add (CalculationInput.fumigationCost input)
                        (CalculationInput.customsClearanceCost input);
         double_add withPacking otherCosts }
   \<and> (is_double (CalculationInput.fumigationCost input)
        \<and> is_double (CalculationInput.customsClearanceCost input)
        \<and> (CalculationInput.fumigationCost input = 0
             \<or> CalculationInput.customsClearanceCost input = 0)
      \<longrightarrow> totalProcurementCost_double input = fiveTermSum_double input)"
proof -
  have grouped: "totalProcurementCost_double input = do {
         rawMaterialsCost \<leftarrow> rawMaterialsCost_double input;
         withTransport \<leftarrow> double_add rawMaterialsCost (CalculationInput.transportCost input);
         withPacking \<leftarrow> double_add withTransport (CalculationInput.packingCost input);
         otherCosts \<leftarrow> double_add (CalculationInput.fumigationCost input)
                        (CalculationInput.customsClearanceCost input);
         double_add withPacking otherCosts }"
    by (auto simp add: totalProcurementCost_double_def otherCosts_double_def
          split: Option.bind_splits)
  from totalProcurementCost_exact_arithmetic [of input] grouped
    five_term_exact_when_one_absent [of input]
  show ?thesis by blast
qed

theorem totalProcurementCost_five_term_sum_witness:
  "is_double (CalculationInput.fumigationCost absentCustomsInput)
   \<and> is_double (CalculationInput.customsClearanceCost absentCustomsInput)
   \<and> CalculationInput.customsClearanceCost absentCustomsInput = 0
   \<and> totalProcurementCost_double absentCustomsInput
       = Some (1351079888211149 / 562949953421312)
   \<and> fiveTermSum_double absentCustomsInput = Some (1351079888211149 / 562949953421312)"
proof -
  have f: "is_double (CalculationInput.fumigationCost absentCustomsInput)"
    and c: "is_double (CalculationInput.customsClearanceCost absentCustomsInput)"
    and z: "CalculationInput.customsClearanceCost absentCustomsInput = 0"
    by (simp_all add: absentCustomsInput_def is_double_tenth is_double_zero)
  with totalProcurementCost_five_term_sum [of absentCustomsInput]
  have "totalProcurementCost_double absentCustomsInput = fiveTermSum_double absentCustomsInput"
    by blast
  with f c z absentCustomsInput_code show ?thesis
    by simp
qed

section \<open>The in-memory estimate store (\<^verbatim>\<open>MemStorage\<close>)\<close>

text \<open>
  The record types follow \<^verbatim>\<open>shared/schema.ts\<close>: an \<open>Estimate\<close> is a row of the table
  \<^verbatim>\<open>estimates\<close>; an \<open>InsertEstimate\<close> leaves out \<^verbatim>\<open>id\<close>, and its columns with a default
  are optional; an \<open>UpdateEstimate\<close> has every column optional. Decimal columns are
  strings. The field \<^verbatim>\<open>id\<close> is written \<open>id'\<close> and a parameter \<^verbatim>\<open>id\<close> is written \<open>ident\<close>,
  since \<open>id\<close> is the identity function of HOL; likewise the parameter \<^verbatim>\<open>status\<close> is
  written \<open>status'\<close>. Identifiers are integers: the store counts up from 1, and the loss
  of precision of a JavaScript number beyond \<open>2 ^ 53\<close> is outside the model. The JSON
  columns \<^verbatim>\<open>products\<close> and \<^verbatim>\<open>calculationResults\<close> are given the types of the pricing
  engine. Field names are written qualified.
\<close>

subsection \<open>Records\<close>

record Estimate =
  id' :: int
  containerId :: string
  destination :: string
  estimateDate :: string
  status :: string
  products :: "ProductLine list"
  transportCost :: string
  packingCost :: string
  fumigationCost :: string
  customsClearanceCost :: string
  exportDutyRate :: string
  defaultMargin :: string
  freightCost :: string
  importDuty :: string
  destinationCustomsClearance :: string
  destinationTransport :: string
  distributorMargin :: string
  retailerMargin :: string
  calculationResults :: "CalculationResults option"
  createdBy :: string
  userRole :: string

record InsertEstimate =
  containerId :: string
  destination :: string
  estimateDate :: string
  status :: "string option"
  products :: "ProductLine list"
  transportCost :: "string option"
  packingCost :: "string option"
  fumigationCost :: "string option"
  customsClearanceCost :: "string option"
  exportDutyRate :: "string option"
  defaultMargin :: "string option"
  freightCost :: "string option"
  importDuty :: "string option"
  destinationCustomsClearance :: "string option"
  destinationTransport :: "string option"
  distributorMargin :: "string option"
  retailerMargin :: "string option"
  calculationResults :: "CalculationResults option"
  createdBy :: string
  userRole :: string

record UpdateEstimate =
  containerId :: "string option"
  destination :: "string option"
  estimateDate :: "string option"
  status :: "string option"
  products :: "ProductLine list option"
  transportCost :: "string option"
  packingCost :: "string option"
  fumigationCost :: "string option"
  customsClearanceCost :: "string option"
  exportDutyRate :: "string option"
  defaultMargin :: "string option"
  freightCost :: "string option"
  importDuty :: "string option"
  destinationCustomsClearance :: "string option"
  destinationTransport :: "string option"
  distributorMargin :: "string option"
  retailerMargin :: "string option"
  calculationResults :: "CalculationResults option option"
  createdBy :: "string option"
  userRole :: "string option"

record MemStorage =
  estimates :: "(int \<times> Estimate) list"
  currentId :: int

subsection \<open>A JavaScript \<^verbatim>\<open>Map\<close>, in insertion order\<close>

text \<open>
  The map is a list of pairs in insertion order. \<^verbatim>\<open>Map.prototype.set\<close> replaces the
  value of a key that is present, in place, and appends a new key at the end;
  \<^verbatim>\<open>values()\<close> iterates in that order; \<^verbatim>\<open>get\<close> is \<open>map_of\<close>; \<^verbatim>\<open>delete\<close> drops the key and
  tells whether it was there.
\<close>

fun map_set :: "('k \<times> 'v) list \<Rightarrow> 'k \<Rightarrow> 'v \<Rightarrow> ('k \<times> 'v) list" where
  "map_set [] k v = [(k, v)]"
| "map_set ((k', v') # m) k v =
     (if k' = k then (k, v) # m else (k', v') # map_set m k v)"

definition map_values :: "('k \<times> 'v) list \<Rightarrow> 'v list" where
  "map_values m = map snd m"

subsection \<open>Constructor, create, update, delete\<close>

definition newMemStorage :: MemStorage where
  "newMemStorage = \<lparr> estimates = [], currentId = 1 \<rparr>"

text \<open>
  \<^verbatim>\<open>x || d\<close> on an optional string: \<^verbatim>\<open>undefined\<close> and the empty string are falsy, every
  other string (also the one-character string \<open>0\<close>) is truthy.
\<close>

definition orDefault :: "string option \<Rightarrow> string \<Rightarrow> string" where
  "orDefault supplied dflt =
     (case supplied of None \<Rightarrow> dflt | Some v \<Rightarrow> if v = [] then dflt else v)"

definition createEstimate :: "MemStorage \<Rightarrow> InsertEstimate \<Rightarrow> Estimate \<times> MemStorage" where
  "createEstimate this insertEstimate =
    (let ident = currentId this;
         this = this\<lparr>currentId := currentId this + 1\<rparr>;
         estimate =
           \<lparr> id' = ident,
             Estimate.containerId = InsertEstimate.containerId insertEstimate,
             Estimate.destination = InsertEstimate.destination insertEstimate,
             Estimate.estimateDate = InsertEstimate.estimateDate insertEstimate,
             Estimate.status = orDefault (InsertEstimate.status insertEstimate) ''draft'',
             Estimate.products = InsertEstimate.products insertEstimate,
             Estimate.transportCost =
               orDefault (InsertEstimate.transportCost insertEstimate) ''0'',
             Estimate.packingCost = orDefault (InsertEstimate.packingCost insertEstimate) ''0'',
             Estimate.fumigationCost =
               orDefault (InsertEstimate.fumigationCost insertEstimate) ''0'',
             Estimate.customsClearanceCost =
               orDefault (InsertEstimate.customsClearanceCost insertEstimate) ''0'',
             Estimate.exportDutyRate =
               orDefault (InsertEstimate.exportDutyRate insertEstimate) ''0'',
             Estimate.defaultMargin =
               orDefault (InsertEstimate.defaultMargin insertEstimate) ''15'',
             Estimate.freightCost = orDefault (InsertEstimate.freightCost insertEstimate) ''0'',
             Estimate.importDuty = orDefault (InsertEstimate.importDuty insertEstimate) ''0'',
             Estimate.destinationCustomsClearance =
               orDefault (InsertEstimate.destinationCustomsClearance insertEstimate) ''0'',
             Estimate.destinationTransport =
               orDefault (InsertEstimate.destinationTransport insertEstimate) ''0'',
             Estimate.distributorMargin =
               orDefault (InsertEstimate.distributorMargin insertEstimate) ''12'',
             Estimate.retailerMargin =
               orDefault (InsertEstimate.retailerMargin insertEstimate) ''20'',
             Estimate.calculationResults = InsertEstimate.calculationResults insertEstimate,
             Estimate.createdBy = InsertEstimate.createdBy insertEstimate,
             Estimate.userRole = InsertEstimate.userRole insertEstimate \<rparr>
     in (estimate, this\<lparr>estimates := map_set (estimates this) ident estimate\<rparr>))"

text \<open>
  \<^verbatim>\<open>{ ...existing, ...updateEstimate }\<close>: a key that the update carries wins over the
  existing one. \<open>UpdateEstimate\<close> has no \<^verbatim>\<open>id\<close>, so the identifier stays.
\<close>

definition spread :: "'a \<Rightarrow> 'a option \<Rightarrow> 'a" where
  "spread existing supplied = (case supplied of None \<Rightarrow> existing | Some v \<Rightarrow> v)"

definition updateEstimate ::
    "MemStorage \<Rightarrow> int \<Rightarrow> UpdateEstimate \<Rightarrow> Estimate option \<times> MemStorage" where
  "updateEstimate this ident u =
     (case map_of (estimates this) ident of
        None \<Rightarrow> (None, this)
      | Some existing \<Rightarrow>
          (let updated =
                 \<lparr> id' = id' existing,
                   Estimate.containerId =
                     spread (Estimate.containerId existing) (UpdateEstimate.containerId u),
                   Estimate.destination =
                     spread (Estimate.destination existing) (UpdateEstimate.destination u),
                   Estimate.estimateDate =
                     spread (Estimate.estimateDate existing) (UpdateEstimate.estimateDate u),
                   Estimate.status =
                     spread (Estimate.status existing) (UpdateEstimate.status u),
                   Estimate.products =
                     spread (Estimate.products existing) (UpdateEstimate.products u),
                   Estimate.transportCost =
                     spread (Estimate.transportCost existing) (UpdateEstimate.transportCost u),
                   Estimate.packingCost =
                     spread (Estimate.packingCost existing) (UpdateEstimate.packingCost u),
                   Estimate.fumigationCost =
                     spread (Estimate.fumigationCost existing) (UpdateEstimate.fumigationCost u),
                   Estimate.customsClearanceCost =
                     spread (Estimate.customsClearanceCost existing)
                       (UpdateEstimate.customsClearanceCost u),
                   Estimate.exportDutyRate =
                     spread (Estimate.exportDutyRate existing) (UpdateEstimate.exportDutyRate u),
                   Estimate.defaultMargin =
                     spread (Estimate.defaultMargin existing) (UpdateEstimate.defaultMargin u),
                   Estimate.freightCost =
                     spread (Estimate.freightCost existing) (UpdateEstimate.freightCost u),
                   Estimate.importDuty =
                     spread (Estimate.importDuty existing) (UpdateEstimate.importDuty u),
                   Estimate.destinationCustomsClearance =
                     spread (Estimate.destinationCustomsClearance existing)
                       (UpdateEstimate.destinationCustomsClearance u),
                   Estimate.destinationTransport =
                     spread (Estimate.destinationTransport existing)
                       (UpdateEstimate.destinationTransport u),
                   Estimate.distributorMargin =
                     spread (Estimate.distributorMargin existing)
                       (UpdateEstimate.distributorMargin u),
                   Estimate.retailerMargin =
                     spread (Estimate.retailerMargin existing) (UpdateEstimate.retailerMargin u),
                   Estimate.calculationResults =
                     spread (Estimate.calculationResults existing)
                       (UpdateEstimate.calculationResults u),
                   Estimate.createdBy =
                     spread (Estimate.createdBy existing) (UpdateEstimate.createdBy u),
                   Estimate.userRole =
                     spread (Estimate.userRole existing) (UpdateEstimate.userRole u) \<rparr>
           in (Some updated, this\<lparr>estimates := map_set (estimates this) ident updated\<rparr>)))"

definition deleteEstimate :: "MemStorage \<Rightarrow> int \<Rightarrow> bool \<times> MemStorage" where
  "deleteEstimate this ident =
     (map_of (estimates this) ident \<noteq> None,
      this\<lparr>estimates := filter (\<lambda>(k, v). k \<noteq> ident) (estimates this)\<rparr>)"

subsection \<open>Sorting with a comparator\<close>

text \<open>
  \<^verbatim>\<open>Array.prototype.sort\<close> is stable, and with a consistent comparator its result does
  not depend on the algorithm; it is modelled as a stable insertion sort. An element
  goes before the first element that the comparator does not put before it.
\<close>

fun insert_sorted :: "('a \<Rightarrow> 'a \<Rightarrow> int) \<Rightarrow> 'a \<Rightarrow> 'a list \<Rightarrow> 'a list" where
  "insert_sorted cmp x [] = [x]"
| "insert_sorted cmp x (y # ys) =
     (if cmp x y \<le> 0 then x # y # ys else y # insert_sorted cmp x ys)"

definition array_sort :: "('a \<Rightarrow> 'a \<Rightarrow> int) \<Rightarrow> 'a list \<Rightarrow> 'a list" where
  "array_sort cmp xs = foldr (insert_sorted cmp) xs []"

text \<open>\<^verbatim>\<open>(a, b) => b.id - a.id\<close>\<close>

definition byIdDescending :: "Estimate \<Rightarrow> Estimate \<Rightarrow> int" where
  "byIdDescending a b = id' b - id' a"

subsection \<open>Strings\<close>

text \<open>
  A string is the list of the bytes of its UTF-8 encoding, so an ASCII character is one
  byte below 128, and a well-formed string occurs in another as a run of UTF-16 code
  units, which is what \<^verbatim>\<open>s.includes(q)\<close> tests, exactly when its bytes occur as a
  contiguous segment.

  \<^verbatim>\<open>String.prototype.toLowerCase\<close> is a built-in of the language: its case mapping is a
  table of the Unicode standard, which the repository does not contain. It is a
  parameter \<open>toLowerCase\<close> of the search, and the definitions assume nothing of it. What
  a theorem needs of it is a hypothesis there: \<open>lowersAscii toLowerCase\<close> says that on
  a string of ASCII characters the function turns the letters \<^verbatim>\<open>A\<close> to \<^verbatim>\<open>Z\<close> into \<^verbatim>\<open>a\<close> to
  \<^verbatim>\<open>z\<close> and leaves every other character as it is, as the built-in does. The function
  \<open>asciiLowerCase\<close> states that behaviour; it is not the built-in, which also maps
  letters beyond ASCII.
\<close>

definition isAscii :: "string \<Rightarrow> bool" where
  "isAscii s = list_all (\<lambda>c. (of_char c :: nat) < 128) s"

definition asciiLowerCase_char :: "char \<Rightarrow> char" where
  "asciiLowerCase_char c =
     (let n = (of_char c :: nat) in if 65 \<le> n \<and> n \<le> 90 then char_of (n + 32) else c)"

definition asciiLowerCase :: "string \<Rightarrow> string" where
  "asciiLowerCase s = map asciiLowerCase_char s"

definition lowersAscii :: "(string \<Rightarrow> string) \<Rightarrow> bool" where
  "lowersAscii toLowerCase = (\<forall>s. isAscii s \<longrightarrow> toLowerCase s = asciiLowerCase s)"


subsection \<open>The queries\<close>

definition getAllEstimates :: "MemStorage \<Rightarrow> Estimate list" where
  "getAllEstimates this = array_sort byIdDescending (map_values (estimates this))"



text \<open>
  The spec's wording of the search, without any lower-casing: \<open>q\<close> is a case-insensitive
  substring of \<open>s\<close> when some contiguous segment of \<open>s\<close> has the length of \<open>q\<close> and agrees
  with it character by character, where two characters agree when they are equal or
  are the upper-case and the lower-case form of the same letter of the alphabet.
\<close>

definition letterPairs :: "(char \<times> char) list" where
  "letterPairs = zip ''ABCDEFGHIJKLMNOPQRSTUVWXYZ'' ''abcdefghijklmnopqrstuvwxyz''"

definition sameLetter :: "char \<Rightarrow> char \<Rightarrow> bool" where
  "sameLetter c d = (c = d \<or> (c, d) \<in> set letterPairs \<or> (d, c) \<in> set letterPairs)"




subsection \<open>A sequence of calls, and the identifiers it assigns\<close>

datatype storageCall =
  Create InsertEstimate
| Update int UpdateEstimate
| Delete int

fun runCalls :: "MemStorage \<Rightarrow> storageCall list \<Rightarrow> int list \<times> MemStorage" where
  "runCalls this [] = ([], this)"
| "runCalls this (Create insertEstimate # calls) =
     (let (estimate, this') = createEstimate this insertEstimate;
          (ids, this'') = runCalls this' calls
      in (id' estimate # ids, this''))"
| "runCalls this (Update ident u # calls) = runCalls (snd (updateEstimate this ident u)) calls"
| "runCalls this (Delete ident # calls) = runCalls (snd (deleteEstimate this ident)) calls"

text \<open>
  The spec's wording of a defaulted field: an absent or empty supplied value is stored as
  the default, any other supplied value is stored as it is.
\<close>

definition storedOrDefault :: "string option \<Rightarrow> string \<Rightarrow> string \<Rightarrow> bool" where
  "storedOrDefault supplied dflt stored =
     (if supplied = None \<or> supplied = Some [] then stored = dflt else supplied = Some stored)"

text \<open>A worked example: three creates and a delete on a new store.\<close>

definition exampleInsert :: "string \<Rightarrow> string \<Rightarrow> string option \<Rightarrow> InsertEstimate" where
  "exampleInsert container dest st =
     \<lparr> InsertEstimate.containerId = container,
       InsertEstimate.destination = dest,
       InsertEstimate.estimateDate = ''2024-01-15'',
       InsertEstimate.status = st,
       InsertEstimate.products = [],
       InsertEstimate.transportCost = Some [],
       InsertEstimate.packingCost = Some ''5'',
       InsertEstimate.fumigationCost = None,
       InsertEstimate.customsClearanceCost = None,
       InsertEstimate.exportDutyRate = None,
       InsertEstimate.defaultMargin = None,
       InsertEstimate.freightCost = None,
       InsertEstimate.importDuty = None,
       InsertEstimate.destinationCustomsClearance = None,
       InsertEstimate.destinationTransport = None,
       InsertEstimate.distributorMargin = Some ''30'',
       InsertEstimate.retailerMargin = None,
       InsertEstimate.calculationResults = None,
       InsertEstimate.createdBy = ''ops'',
       InsertEstimate.userRole = ''admin'' \<rparr>"

definition exampleCalls :: "storageCall list" where
  "exampleCalls =
     [Create (exampleInsert ''CONT-001'' ''Dubai'' None),
      Create (exampleInsert ''dub-7'' ''Rotterdam'' (Some ''completed'')),
      Delete 1,
      Create (exampleInsert ''CONT-003'' ''Port of DUBLIN'' (Some ''completed''))]"

subsection \<open>Listing, filtering by status and searching\<close>



lemma sameLetter_examples:
  "sameLetter CHR ''q'' CHR ''Q''" "sameLetter CHR ''Q'' CHR ''q''"
  "\<not> sameLetter CHR ''q'' CHR ''r''" "\<not> sameLetter CHR ''@'' CHR 0x60"
  "\<not> sameLetter CHR ''['' CHR ''{''"
  by code_simp+









text \<open>The hypothesis tells a case-insensitive search from a case-sensitive one.\<close>

lemma identity_not_lowersAscii: "\<not> lowersAscii (\<lambda>s. s)"
proof
  assume "lowersAscii (\<lambda>s. s)"
  then have "isAscii ''A'' \<longrightarrow> ''A'' = asciiLowerCase ''A''"
    unfolding lowersAscii_def by blast
  then show False by code_simp
qed









subsection \<open>Creating an estimate\<close>

lemma orDefault_storedOrDefault: "storedOrDefault supplied dflt (orDefault supplied dflt)"
  by (simp add: storedOrDefault_def orDefault_def split: option.splits)

lemma createEstimate_id: "id' (fst (createEstimate this ins)) = currentId this"
  by (simp add: createEstimate_def Let_def)

lemma createEstimate_currentId:
  "currentId (snd (createEstimate this ins)) = currentId this + 1"
  by (simp add: createEstimate_def Let_def)

lemma updateEstimate_currentId:
  "currentId (snd (updateEstimate this ident u)) = currentId this"
  by (simp add: updateEstimate_def Let_def split: option.splits)

lemma deleteEstimate_currentId:
  "currentId (snd (deleteEstimate this ident)) = currentId this"
  by (simp add: deleteEstimate_def)

lemma map_of_map_set: "map_of (map_set m k v) k = Some v"
  by (induction m) auto

lemma createEstimate_stored:
  "map_of (estimates (snd (createEstimate this ins))) (currentId this)
     = Some (fst (createEstimate this ins))"
  by (simp add: createEstimate_def Let_def map_of_map_set)

lemma runCalls_ids:
  "currentId this \<le> currentId (snd (runCalls this calls))
   \<and> list_all (\<lambda>i. currentId this \<le> i \<and> i < currentId (snd (runCalls this calls)))
        (fst (runCalls this calls))
   \<and> sorted_wrt (<) (fst (runCalls this calls))"
proof (induction this calls rule: runCalls.induct)
  case (1 this)
  then show ?case by simp
next
  case (2 this insertEstimate calls)
  obtain estimate this' where c: "createEstimate this insertEstimate = (estimate, this')"
    by (cases "createEstimate this insertEstimate")
  obtain ids this'' where r: "runCalls this' calls = (ids, this'')"
    by (cases "runCalls this' calls")
  have i: "id' estimate = currentId this" and n: "currentId this' = currentId this + 1"
    using createEstimate_id [of this insertEstimate]
      createEstimate_currentId [of this insertEstimate] c by simp_all
  from "2.IH" [OF c [symmetric] refl] r n
  have ih: "currentId this + 1 \<le> currentId this''"
    "list_all (\<lambda>i. currentId this + 1 \<le> i \<and> i < currentId this'') ids"
    "sorted_wrt (<) ids"
    by simp_all
  show ?case
    using ih i by (auto simp add: c r list_all_iff)
next
  case (3 this ident u calls)
  then show ?case by (simp add: updateEstimate_currentId)
next
  case (4 this ident calls)
  then show ?case by (simp add: deleteEstimate_currentId)
qed

lemma exampleCalls_ids: "fst (runCalls newMemStorage exampleCalls) = [1, 2, 3]"
  by (simp add: exampleCalls_def newMemStorage_def createEstimate_def deleteEstimate_def Let_def)

lemma exampleCalls_currentId: "currentId (snd (runCalls newMemStorage exampleCalls)) = 4"
  by (simp add: exampleCalls_def newMemStorage_def createEstimate_def deleteEstimate_def Let_def)

lemma exampleCalls_getAllEstimates:
  "map id' (getAllEstimates (snd (runCalls newMemStorage exampleCalls))) = [3, 2]"
  by code_simp

text \<open>
  Claim C10. \<open>createEstimate\<close> stores the default for a field that is absent or the
  empty string, and the supplied value otherwise: \<open>draft\<close> for the status, \<open>0\<close> for the
  nine cost and rate fields, \<open>15\<close> for the default margin, \<open>12\<close> for the distributor
  margin and \<open>20\<close> for the retailer margin. The new record gets the store's current
  identifier and is stored under it, and the store's current identifier goes up by
  one; so over any sequence of create, update and delete calls, from any store, the
  identifiers assigned strictly increase, and a create after the sequence gets an
  identifier greater than every identifier assigned during it.
\<close>

theorem createEstimate_defaults_and_fresh_id:
  "storedOrDefault (InsertEstimate.status ins) ''draft''
      (Estimate.status (fst (createEstimate store ins)))
   \<and> storedOrDefault (InsertEstimate.transportCost ins) ''0''
      (Estimate.transportCost (fst (createEstimate store ins)))
   \<and> storedOrDefault (InsertEstimate.packingCost ins) ''0''
      (Estimate.packingCost (fst (createEstimate store ins)))
   \<and> storedOrDefault (InsertEstimate.fumigationCost ins) ''0''
      (Estimate.fumigationCost (fst (createEstimate store ins)))
   \<and> storedOrDefault (InsertEstimate.customsClearanceCost ins) ''0''
      (Estimate.customsClearanceCost (fst (createEstimate store ins)))
   \<and> storedOrDefault (InsertEstimate.exportDutyRate ins) ''0''
      (Estimate.exportDutyRate (fst (createEstimate store ins)))
   \<and> storedOrDefault (InsertEstimate.freightCost ins) ''0''
      (Estimate.freightCost (fst (createEstimate store ins)))
   \<and> storedOrDefault (InsertEstimate.importDuty ins) ''0''
      (Estimate.importDuty (fst (createEstimate store ins)))
   \<and> storedOrDefault (InsertEstimate.destinationCustomsClearance ins) ''0''
      (Estimate.destinationCustomsClearance (fst (createEstimate store ins)))
   \<and> storedOrDefault (InsertEstimate.destinationTransport ins) ''0''
      (Estimate.destinationTransport (fst (createEstimate store ins)))
   \<and> storedOrDefault (InsertEstimate.defaultMargin ins) ''15''
      (Estimate.defaultMargin (fst (createEstimate store ins)))
   \<and> storedOrDefault (InsertEstimate.distributorMargin ins) ''12''
      (Estimate.distributorMargin (fst (createEstimate store ins)))
   \<and> storedOrDefault (InsertEstimate.retailerMargin ins) ''20''
      (Estimate.retailerMargin (fst (createEstimate store ins)))
   \<and> id' (fst (createEstimate store ins)) = currentId store
   \<and> currentId (snd (createEstimate store ins)) = currentId store + 1
   \<and> map_of (estimates (snd (createEstimate store ins))) (currentId store)
       = Some (fst (createEstimate store ins))
   \<and> sorted_wrt (<) (fst (runCalls store calls))
   \<and> list_all (\<lambda>i. i < id' (fst (createEstimate (snd (runCalls store calls)) ins)))
        (fst (runCalls store calls))"
proof -
  have fields:
    "Estimate.status (fst (createEstimate store ins))
       = orDefault (InsertEstimate.status ins) ''draft''"
    "Estimate.transportCost (fst (createEstimate store ins))
       = orDefault (InsertEstimate.transportCost ins) ''0''"
    "Estimate.packingCost (fst (createEstimate store ins))
       = orDefault (InsertEstimate.packingCost ins) ''0''"
    "Estimate.fumigationCost (fst (createEstimate store ins))
       = orDefault (InsertEstimate.fumigationCost ins) ''0''"
    "Estimate.customsClearanceCost (fst (createEstimate store ins))
       = orDefault (InsertEstimate.customsClearanceCost ins) ''0''"
    "Estimate.exportDutyRate (fst (createEstimate store ins))
       = orDefault (InsertEstimate.exportDutyRate ins) ''0''"
    "Estimate.freightCost (fst (createEstimate store ins))
       = orDefault (InsertEstimate.freightCost ins) ''0''"
    "Estimate.importDuty (fst (createEstimate store ins))
       = orDefault (InsertEstimate.importDuty ins) ''0''"
    "Estimate.destinationCustomsClearance (fst (createEstimate store ins))
       = orDefault (InsertEstimate.destinationCustomsClearance ins) ''0''"
    "Estimate.destinationTransport (fst (createEstimate store ins))
       = orDefault (InsertEstimate.destinationTransport ins) ''0''"
    "Estimate.defaultMargin (fst (createEstimate store ins))
       = orDefault (InsertEstimate.defaultMargin ins) ''15''"
    "Estimate.distributorMargin (fst (createEstimate store ins))
       = orDefault (InsertEstimate.distributorMargin ins) ''12''"
    "Estimate.retailerMargin (fst (createEstimate store ins))
       = orDefault (InsertEstimate.retailerMargin ins) ''20''"
    by (simp_all add: createEstimate_def Let_def)
  have later: "list_all (\<lambda>i. i < id' (fst (createEstimate (snd (runCalls store calls)) ins)))
        (fst (runCalls store calls))"
    using runCalls_ids [of store calls]
    by (simp add: createEstimate_id list_all_iff)
  show ?thesis
    unfolding fields
    using later runCalls_ids [of store calls]
    by (simp add: orDefault_storedOrDefault createEstimate_id createEstimate_currentId
          createEstimate_stored)
qed

theorem createEstimate_defaults_and_fresh_id_witness:
  "Estimate.status (fst (createEstimate newMemStorage (exampleInsert ''CONT-001'' ''Dubai'' None)))
     = ''draft''
   \<and> Estimate.transportCost
       (fst (createEstimate newMemStorage (exampleInsert ''CONT-001'' ''Dubai'' None))) = ''0''
   \<and> Estimate.packingCost
       (fst (createEstimate newMemStorage (exampleInsert ''CONT-001'' ''Dubai'' None))) = ''5''
   \<and> Estimate.distributorMargin
       (fst (createEstimate newMemStorage (exampleInsert ''CONT-001'' ''Dubai'' None))) = ''30''
   \<and> Estimate.retailerMargin
       (fst (createEstimate newMemStorage (exampleInsert ''CONT-001'' ''Dubai'' None))) = ''20''
   \<and> fst (runCalls newMemStorage exampleCalls) = [1, 2, 3]
   \<and> id' (fst (createEstimate (snd (runCalls newMemStorage exampleCalls))
          (exampleInsert ''CONT-001'' ''Dubai'' None))) = 4"
  using createEstimate_defaults_and_fresh_id
          [of "exampleInsert ''CONT-001'' ''Dubai'' None" newMemStorage exampleCalls]
  by (simp add: storedOrDefault_def exampleInsert_def exampleCalls_ids exampleCalls_currentId createEstimate_id)

end
